theory Spec2Isabelle
  imports Main
begin

section \<open>Request values\<close>

text \<open>
  The handlers read their fields from a JSON body (\<open>req.body\<close>) or from an item of an
  indexer response. A field is absent (\<open>undefined\<close> in the handler), \<open>null\<close>, or holds a
  value. Fields are typed by the column they feed: identifiers, addresses, hashes and
  arbitrary-precision amounts are strings, block numbers and unix timestamps are integers.
\<close>

datatype 'a field = Undefined | Null | Val 'a

text \<open>JavaScript truthiness (\<open>!x\<close> is its negation): the empty string and 0 are falsy.\<close>

fun truthy_str :: "string field \<Rightarrow> bool" where
  "truthy_str (Val s) = (s \<noteq> [])"
| "truthy_str _ = False"

fun truthy_num :: "int field \<Rightarrow> bool" where
  "truthy_num (Val n) = (n \<noteq> 0)"
| "truthy_num _ = False"

text \<open>\<open>x || d\<close> on a string field.\<close>

definition or_str :: "string field \<Rightarrow> string \<Rightarrow> string field" where
  "or_str x d = (if truthy_str x then x else Val d)"

text \<open>The driver sends both \<open>undefined\<close> and \<open>null\<close> as SQL NULL.\<close>

fun sql_param :: "'a field \<Rightarrow> 'a option" where
  "sql_param (Val v) = Some v"
| "sql_param _ = None"

section \<open>Characters\<close>

text \<open>Strings are sequences of bytes, a text outside ASCII in UTF-8.\<close>

definition is_space :: "char \<Rightarrow> bool" where
  "is_space c = (let n = (of_char c :: nat) in n = 32 \<or> (9 \<le> n \<and> n \<le> 13))"

definition dec_digit :: "char \<Rightarrow> nat option" where
  "dec_digit c =
     (let n = (of_char c :: nat) in if 48 \<le> n \<and> n \<le> 57 then Some (n - 48) else None)"

definition hex_digit :: "char \<Rightarrow> nat option" where
  "hex_digit c =
     (let n = (of_char c :: nat)
      in if 48 \<le> n \<and> n \<le> 57 then Some (n - 48)
         else if 97 \<le> n \<and> n \<le> 102 then Some (n - 87)
         else if 65 \<le> n \<and> n \<le> 70 then Some (n - 55)
         else None)"

definition to_lower :: "string \<Rightarrow> string" where
  "to_lower s =
     map (\<lambda>c. let n = (of_char c :: nat) in if 65 \<le> n \<and> n \<le> 90 then char_of (n + 32) else c) s"

fun starts_with :: "string \<Rightarrow> string \<Rightarrow> bool" where
  "starts_with s [] = True"
| "starts_with [] (p # ps) = False"
| "starts_with (c # cs) (p # ps) = (c = p \<and> starts_with cs ps)"

section \<open>The store (src/sql/blockchain\_cache.sql)\<close>

text \<open>
  Each table is the list of its rows in insertion order. Timestamps are points of a
  clock read by \<open>CURRENT_TIMESTAMP\<close>, passed to every operation as \<open>now\<close>. A row of the
  campaign, donation and withdrawal tables holds the values that the columns made of the
  parameters; a row of the badge table holds its parameters as they were sent.
\<close>

type_synonym time = nat

text \<open>A value of a NUMERIC(30, 0) column: an integer, or the not-a-number of the type.\<close>

datatype numeric = NumericNaN | Numeric int

record campaign_row =
  cr_id :: int
  cr_name :: string
  cr_creator_name :: "string option"
  cr_owner :: string
  cr_balance :: "numeric option"
  cr_target_amount :: numeric
  cr_creation_time :: int
  cr_last_synced_at :: time
  cr_created_at :: time
  cr_updated_at :: time

text \<open>
  The three QRIS columns are named by the insert of \<open>getQRISStatus\<close>; the table
  declaration in src/sql/blockchain\_cache.sql does not list them.
\<close>

record donation_row =
  dr_id :: string
  dr_campaign_id :: int
  dr_donor :: string
  dr_amount :: numeric
  dr_transaction_hash :: string
  dr_block_number :: int
  dr_timestamp :: int
  dr_last_synced_at :: time
  dr_created_at :: time
  dr_payment_method :: "string option"
  dr_qris_order_id :: "string option"
  dr_qris_gross_amount :: "int option"

record withdrawal_row =
  wr_id :: string
  wr_campaign_id :: int
  wr_name :: "string option"
  wr_owner :: string
  wr_creator_name :: "string option"
  wr_amount :: numeric
  wr_transaction_hash :: string
  wr_block_number :: int
  wr_timestamp :: int
  wr_last_synced_at :: time
  wr_created_at :: time

record badge_row =
  br_token_id :: int
  br_owner :: string
  br_name :: string
  br_transaction_hash :: string
  br_block_number :: int
  br_timestamp :: int
  br_last_synced_at :: time
  br_created_at :: time

record sync_row =
  ss_entity_type :: string
  ss_last_block_number :: "int option"
  ss_last_synced_at :: time
  ss_total_synced :: int
  ss_status :: string
  ss_error_message :: "string option"
  ss_updated_at :: time

record store =
  campaigns :: "campaign_row list"
  donations :: "donation_row list"
  withdrawals :: "withdrawal_row list"
  badges :: "badge_row list"
  sync_status :: "sync_row list"

datatype db_error =
    NotNullViolation
  | ForeignKeyViolation
  | UniqueViolation
  | IntegerOutOfRange
  | UndefinedColumn
  | InvalidText
  | StringTooLong
  | NumericSyntax
  | NumericOverflow

text \<open>The rows seeded by the schema script.\<close>

definition seed_row :: "time \<Rightarrow> string \<Rightarrow> sync_row" where
  "seed_row t e =
     \<lparr>ss_entity_type = e, ss_last_block_number = Some 0, ss_last_synced_at = t,
      ss_total_synced = 0, ss_status = ''healthy'', ss_error_message = None,
      ss_updated_at = t\<rparr>"

definition empty_store :: "time \<Rightarrow> store" where
  "empty_store t =
     \<lparr>campaigns = [], donations = [], withdrawals = [], badges = [],
      sync_status = map (seed_row t) [''campaign'', ''donation'', ''withdrawal'', ''badge'']\<rparr>"

section \<open>Column types\<close>

text \<open>
  What a column of the store makes of a parameter, after the database version that the
  repository names (PostgreSQL 16). A JSON number is an integer here, sent in decimal.
\<close>

text \<open>An error ends the conversions, as the exception of the driver would.\<close>

definition and_then :: "db_error + 'a \<Rightarrow> ('a \<Rightarrow> db_error + 'b) \<Rightarrow> db_error + 'b" where
  "and_then r f = (case r of Inl e \<Rightarrow> Inl e | Inr v \<Rightarrow> f v)"

text \<open>
  The characters of a text are the bytes that are not continuation bytes. A text parameter
  with a zero byte is refused. A VARCHAR(n) column takes a text of at most n characters,
  and a longer one whose excess is all spaces, cut to n characters.
\<close>

definition is_continuation :: "char \<Rightarrow> bool" where
  "is_continuation c = (let n = (of_char c :: nat) in 128 \<le> n \<and> n \<le> 191)"

definition char_count :: "string \<Rightarrow> nat" where
  "char_count s = length (filter (\<lambda>c. \<not> is_continuation c) s)"

fun take_chars :: "nat \<Rightarrow> string \<Rightarrow> string" where
  "take_chars n [] = []"
| "take_chars n (c # cs) =
     (if is_continuation c then c # take_chars n cs
      else case n of 0 \<Rightarrow> [] | Suc m \<Rightarrow> c # take_chars m cs)"

definition text_in :: "string \<Rightarrow> db_error + string" where
  "text_in s = (if CHR 0x00 \<in> set s then Inl InvalidText else Inr s)"

definition varchar_in :: "nat \<Rightarrow> string \<Rightarrow> db_error + string" where
  "varchar_in n s =
     and_then (text_in s) (\<lambda>t.
       if char_count t \<le> n then Inr t
       else if \<forall>c \<in> set (drop (length (take_chars n t)) t). c = CHR '' ''
       then Inr (take_chars n t)
       else Inl StringTooLong)"

text \<open>INTEGER and BIGINT columns.\<close>

definition int4_in :: "int \<Rightarrow> db_error + int" where
  "int4_in v = (if - 2147483648 \<le> v \<and> v \<le> 2147483647 then Inr v else Inl IntegerOutOfRange)"

definition int8_in :: "int \<Rightarrow> db_error + int" where
  "int8_in v =
     (if - 9223372036854775808 \<le> v \<and> v \<le> 9223372036854775807 then Inr v
      else Inl IntegerOutOfRange)"

text \<open>
  The text input of NUMERIC: white space, a sign, then a decimal number (digits with an
  optional point, an optional exponent, single underscores between digits), or an integer
  written with \<open>0x\<close>, \<open>0o\<close> or \<open>0b\<close>, or \<open>NaN\<close>; then white space only. The column
  NUMERIC(30, 0) rounds the number to an integer, half away from zero, refuses one of more
  than 30 digits and any infinity, and keeps \<open>NaN\<close>.
\<close>

definition is_digit :: "char \<Rightarrow> bool" where
  "is_digit c = (dec_digit c \<noteq> None)"

definition digit_of :: "char \<Rightarrow> int" where
  "digit_of c = (case dec_digit c of None \<Rightarrow> 0 | Some d \<Rightarrow> int d)"

fun decimal_digits :: "bool \<Rightarrow> int \<Rightarrow> int \<Rightarrow> string \<Rightarrow> (int \<times> int \<times> string) option" where
  "decimal_digits dp m sc [] = Some (m, sc, [])"
| "decimal_digits dp m sc (c # cs) =
     (if is_digit c then decimal_digits dp (m * 10 + digit_of c) (if dp then sc + 1 else sc) cs
      else if c = CHR ''.''
      then (if dp then None
            else case cs of
                   [] \<Rightarrow> decimal_digits True m sc cs
                 | d # _ \<Rightarrow> if d = CHR ''_'' then None else decimal_digits True m sc cs)
      else if c = CHR ''_''
      then (case cs of [] \<Rightarrow> None | d # _ \<Rightarrow> if is_digit d then decimal_digits dp m sc cs else None)
      else Some (m, sc, c # cs))"

fun exponent_digits :: "int \<Rightarrow> string \<Rightarrow> db_error + int \<times> string" where
  "exponent_digits x [] = Inr (x, [])"
| "exponent_digits x (c # cs) =
     (if is_digit c
      then (let y = x * 10 + digit_of c
            in if y > 1073741823 then Inl NumericOverflow else exponent_digits y cs)
      else if c = CHR ''_''
      then (case cs of [] \<Rightarrow> Inl NumericSyntax
            | d # _ \<Rightarrow> if is_digit d then exponent_digits x cs else Inl NumericSyntax)
      else Inr (x, c # cs))"

definition exponent_part :: "string \<Rightarrow> db_error + int \<times> string" where
  "exponent_part s =
     (case s of
        [] \<Rightarrow> Inr (0, [])
      | c # cs \<Rightarrow>
          if c = CHR ''e'' \<or> c = CHR ''E''
          then (let neg = (case cs of [] \<Rightarrow> False | d # _ \<Rightarrow> d = CHR ''-'');
                    ds = (case cs of [] \<Rightarrow> []
                          | d # r \<Rightarrow> if d = CHR ''+'' \<or> d = CHR ''-'' then r else cs)
                in case ds of
                     [] \<Rightarrow> Inl NumericSyntax
                   | d # _ \<Rightarrow>
                       if is_digit d
                       then and_then (exponent_digits 0 ds)
                              (\<lambda>(x, rest). Inr (if neg then - x else x, rest))
                       else Inl NumericSyntax)
          else Inr (0, s))"

definition round_shift :: "int \<Rightarrow> int \<Rightarrow> int" where
  "round_shift m shift =
     (if shift \<ge> 0 then m * 10 ^ nat shift
      else let p = 10 ^ nat (- shift); q = m div p; r = m mod p
           in if 2 * r \<ge> p then q + 1 else q)"

definition decimal_in :: "string \<Rightarrow> db_error + int \<times> string" where
  "decimal_in s =
     (let dp = (case s of [] \<Rightarrow> False | c # _ \<Rightarrow> c = CHR ''.'');
          t = (if dp then tl s else s)
      in case t of
           [] \<Rightarrow> Inl NumericSyntax
         | d # _ \<Rightarrow>
             if \<not> is_digit d then Inl NumericSyntax
             else case decimal_digits dp 0 0 t of
                    None \<Rightarrow> Inl NumericSyntax
                  | Some (m, sc, rest) \<Rightarrow>
                      and_then (exponent_part rest)
                        (\<lambda>(x, rest1). Inr (round_shift m (x - sc), rest1)))"

fun based_digits :: "(char \<Rightarrow> nat option) \<Rightarrow> int \<Rightarrow> int \<Rightarrow> bool \<Rightarrow> string \<Rightarrow> (int \<times> bool \<times> string) option" where
  "based_digits dv base m any [] = Some (m, any, [])"
| "based_digits dv base m any (c # cs) =
     (case dv c of
        Some d \<Rightarrow> based_digits dv base (m * base + int d) True cs
      | None \<Rightarrow>
          if c = CHR ''_''
          then (case cs of [] \<Rightarrow> None
                | d # _ \<Rightarrow> if dv d \<noteq> None then based_digits dv base m True cs else None)
          else Some (m, any, c # cs))"

definition oct_digit :: "char \<Rightarrow> nat option" where
  "oct_digit c =
     (let n = (of_char c :: nat) in if 48 \<le> n \<and> n \<le> 55 then Some (n - 48) else None)"

definition bin_digit :: "char \<Rightarrow> nat option" where
  "bin_digit c =
     (let n = (of_char c :: nat) in if 48 \<le> n \<and> n \<le> 49 then Some (n - 48) else None)"

definition based_in :: "(char \<Rightarrow> nat option) \<Rightarrow> int \<Rightarrow> string \<Rightarrow> db_error + int \<times> string" where
  "based_in dv base s =
     (case based_digits dv base 0 False s of
        None \<Rightarrow> Inl NumericSyntax
      | Some (m, any, rest) \<Rightarrow> if any then Inr (m, rest) else Inl NumericSyntax)"

definition numeric_limit :: int where
  "numeric_limit = 1000000000000000000000000000000"

text \<open>A column that may be NULL and a NOT NULL column, from a parameter.\<close>

definition nullable :: "('a \<Rightarrow> db_error + 'b) \<Rightarrow> 'a option \<Rightarrow> db_error + 'b option" where
  "nullable f p = (case p of None \<Rightarrow> Inr None | Some v \<Rightarrow> and_then (f v) (\<lambda>x. Inr (Some x)))"

definition required :: "('a \<Rightarrow> db_error + 'b) \<Rightarrow> 'a option \<Rightarrow> db_error + 'b" where
  "required f p = (case p of None \<Rightarrow> Inl NotNullViolation | Some v \<Rightarrow> f v)"

definition numeric_in :: "string \<Rightarrow> db_error + numeric" where
  "numeric_in s =
     (let numstart = dropWhile is_space s;
          neg = (case numstart of [] \<Rightarrow> False | c # _ \<Rightarrow> c = CHR ''-'');
          cp = (case numstart of [] \<Rightarrow> []
                | c # r \<Rightarrow> if c = CHR ''+'' \<or> c = CHR ''-'' then r else numstart);
          normal = (case cp of [] \<Rightarrow> False | c # _ \<Rightarrow> is_digit c \<or> c = CHR ''.'')
      in if \<not> normal
         then (if starts_with (to_lower numstart) ''nan''
               then (if \<forall>c \<in> set (drop 3 numstart). is_space c then Inr NumericNaN
                     else Inl NumericSyntax)
               else if starts_with (to_lower cp) ''infinity''
               then (if \<forall>c \<in> set (drop 8 cp). is_space c then Inl NumericOverflow
                     else Inl NumericSyntax)
               else if starts_with (to_lower cp) ''inf''
               then (if \<forall>c \<in> set (drop 3 cp). is_space c then Inl NumericOverflow
                     else Inl NumericSyntax)
               else Inl NumericSyntax)
         else and_then
                (case cp of
                   a # b # r \<Rightarrow>
                     if a = CHR ''0'' \<and> (b = CHR ''x'' \<or> b = CHR ''X'') then based_in hex_digit 16 r
                     else if a = CHR ''0'' \<and> (b = CHR ''o'' \<or> b = CHR ''O'') then based_in oct_digit 8 r
                     else if a = CHR ''0'' \<and> (b = CHR ''b'' \<or> b = CHR ''B'') then based_in bin_digit 2 r
                     else decimal_in cp
                 | _ \<Rightarrow> decimal_in cp)
                (\<lambda>(m, rest).
                   if \<exists>c \<in> set rest. \<not> is_space c then Inl NumericSyntax
                   else if m \<ge> numeric_limit then Inl NumericOverflow
                   else Inr (Numeric (if neg then - m else m))))"

section \<open>Sync status (syncController.ts, updateSyncStatus)\<close>

text \<open>\<open>total_synced\<close> is an INTEGER column: the sum is an error beyond \<open>2^31 - 1\<close>.\<close>

definition int4_max :: int where
  "int4_max = 2147483647"

definition bump_sync_row :: "time \<Rightarrow> int option \<Rightarrow> sync_row \<Rightarrow> sync_row" where
  "bump_sync_row now bn r =
     r\<lparr>ss_last_block_number := (case bn of Some b \<Rightarrow> Some b | None \<Rightarrow> ss_last_block_number r),
       ss_last_synced_at := now,
       ss_total_synced := ss_total_synced r + 1,
       ss_status := ''healthy'',
       ss_error_message := None,
       ss_updated_at := now\<rparr>"

text \<open>
  \<open>UPDATE sync_status SET last_block_number = COALESCE($1, last_block_number), ...
  WHERE entity_type = $2\<close>. The statement changes every row of the entity type, or
  none when it raises.
\<close>

definition update_sync_status_query ::
  "time \<Rightarrow> int option \<Rightarrow> string \<Rightarrow> store \<Rightarrow> db_error + store" where
  "update_sync_status_query now bn entityType s =
     (if \<exists>r \<in> set (sync_status s). ss_entity_type r = entityType \<and> ss_total_synced r + 1 > int4_max
      then Inl IntegerOutOfRange
      else Inr (s\<lparr>sync_status :=
                  map (\<lambda>r. if ss_entity_type r = entityType then bump_sync_row now bn r else r)
                      (sync_status s)\<rparr>))"

text \<open>The helper catches the error of its query and only logs it.\<close>

definition updateSyncStatus :: "time \<Rightarrow> string \<Rightarrow> int field \<Rightarrow> store \<Rightarrow> store" where
  "updateSyncStatus now entityType blockNumber s =
     (case update_sync_status_query now (sql_param blockNumber) entityType s of
        Inl e \<Rightarrow> s
      | Inr s' \<Rightarrow> s')"

section \<open>Statements on the donation table\<close>

definition has_campaign :: "store \<Rightarrow> int \<Rightarrow> bool" where
  "has_campaign s i = (\<exists>r \<in> set (campaigns s). cr_id r = i)"

definition has_donation :: "store \<Rightarrow> string \<Rightarrow> bool" where
  "has_donation s i = (\<exists>r \<in> set (donations s). dr_id r = i)"

text \<open>
  \<open>INSERT INTO blockchain_donations (id, campaign_id, donor, amount, transaction_hash,
  block_number, timestamp, last_synced_at) VALUES (..., CURRENT_TIMESTAMP)
  ON CONFLICT (id) DO NOTHING\<close>, the same text in the webhook, the poller and the batch.
  The proposed row is made of the parameters, column by column, and its NOT NULL
  constraints are checked, before the conflict is looked for; the foreign key is checked
  only for a row that is inserted. A statement raises one error; when more than one column
  refuses its value, the error is that of the first such column, and every caller treats
  all errors of the database alike.
\<close>

definition proposed_donation ::
  "time \<Rightarrow> string option \<Rightarrow> int option \<Rightarrow> string option \<Rightarrow> string option \<Rightarrow> string option
     \<Rightarrow> int option \<Rightarrow> int option \<Rightarrow> db_error + donation_row" where
  "proposed_donation now p1 p2 p3 p4 p5 p6 p7 =
     and_then (required (varchar_in 255) p1) (\<lambda>i.
     and_then (required int4_in p2) (\<lambda>c.
     and_then (required (varchar_in 42) p3) (\<lambda>d.
     and_then (required numeric_in p4) (\<lambda>a.
     and_then (required (varchar_in 66) p5) (\<lambda>h.
     and_then (required int8_in p6) (\<lambda>b.
     and_then (required int8_in p7) (\<lambda>t.
       Inr \<lparr>dr_id = i, dr_campaign_id = c, dr_donor = d, dr_amount = a,
            dr_transaction_hash = h, dr_block_number = b, dr_timestamp = t,
            dr_last_synced_at = now, dr_created_at = now,
            dr_payment_method = None, dr_qris_order_id = None,
            dr_qris_gross_amount = None\<rparr>)))))))"

definition insert_donation ::
  "time \<Rightarrow> string option \<Rightarrow> int option \<Rightarrow> string option \<Rightarrow> string option \<Rightarrow> string option
     \<Rightarrow> int option \<Rightarrow> int option \<Rightarrow> store \<Rightarrow> db_error + store" where
  "insert_donation now p1 p2 p3 p4 p5 p6 p7 s =
     (case proposed_donation now p1 p2 p3 p4 p5 p6 p7 of
        Inl e \<Rightarrow> Inl e
      | Inr row \<Rightarrow>
          if has_donation s (dr_id row) then Inr s
          else if \<not> has_campaign s (dr_campaign_id row) then Inl ForeignKeyViolation
          else Inr (s\<lparr>donations := donations s @ [row]\<rparr>))"

section \<open>Webhook handlers (syncController.ts)\<close>

record response =
  r_status :: nat
  r_success :: bool
  r_message :: string

definition missing_fields :: response where
  "missing_fields = \<lparr>r_status = 400, r_success = False, r_message = ''Missing required fields''\<rparr>"

definition ok_response :: "string \<Rightarrow> response" where
  "ok_response m = \<lparr>r_status = 200, r_success = True, r_message = m\<rparr>"

text \<open>
  The \<open>catch\<close> of a handler answers 500; the message of the error is not modelled. A
  handler is modelled from the point where it holds its connection.
\<close>

definition error_response :: "db_error \<Rightarrow> response" where
  "error_response e = \<lparr>r_status = 500, r_success = False, r_message = ''Failed to sync''\<rparr>"

record donation_body =
  dn_id :: "string field"
  dn_campaignId :: "int field"
  dn_donor :: "string field"
  dn_amount :: "string field"
  dn_transactionHash :: "string field"
  dn_blockNumber :: "int field"
  dn_timestamp :: "int field"

definition donation_invalid :: "donation_body \<Rightarrow> bool" where
  "donation_invalid b =
     (dn_id b = Undefined \<or> dn_campaignId b = Undefined \<or> \<not> truthy_str (dn_donor b) \<or>
      \<not> truthy_str (dn_amount b) \<or> \<not> truthy_str (dn_transactionHash b) \<or>
      \<not> truthy_num (dn_blockNumber b) \<or> \<not> truthy_num (dn_timestamp b))"

definition donation_query :: "time \<Rightarrow> donation_body \<Rightarrow> store \<Rightarrow> db_error + store" where
  "donation_query now b =
     insert_donation now (sql_param (dn_id b)) (sql_param (dn_campaignId b))
       (sql_param (dn_donor b)) (sql_param (dn_amount b)) (sql_param (dn_transactionHash b))
       (sql_param (dn_blockNumber b)) (sql_param (dn_timestamp b))"

definition syncDonation :: "time \<Rightarrow> donation_body \<Rightarrow> store \<Rightarrow> response \<times> store" where
  "syncDonation now b s =
     (if donation_invalid b then (missing_fields, s)
      else case donation_query now b s of
             Inl e \<Rightarrow> (error_response e, s)
           | Inr s1 \<Rightarrow>
               (ok_response ''Donation synced successfully'',
                updateSyncStatus now ''donation'' (dn_blockNumber b) s1))"

section \<open>Statements on the campaign, withdrawal and badge tables\<close>

text \<open>
  \<open>INSERT INTO blockchain_campaigns (...) VALUES (..., CURRENT_TIMESTAMP) ON CONFLICT (id)
  DO UPDATE SET ...\<close>. The three callers differ in the SET list, given here as a function
  of the proposed row (\<open>EXCLUDED\<close>) and the stored row. The parameters are in the order
  id, name, creator\_name, owner, balance, target\_amount, creation\_time.
\<close>

definition proposed_campaign ::
  "time \<Rightarrow> int option \<Rightarrow> string option \<Rightarrow> string option \<Rightarrow> string option \<Rightarrow> string option
     \<Rightarrow> string option \<Rightarrow> int option \<Rightarrow> db_error + campaign_row" where
  "proposed_campaign now p_id p_name p_creator p_owner p_balance p_target p_creation =
     and_then (required int4_in p_id) (\<lambda>i.
     and_then (required (varchar_in 255) p_name) (\<lambda>n.
     and_then (nullable (varchar_in 255) p_creator) (\<lambda>cn.
     and_then (required (varchar_in 42) p_owner) (\<lambda>ow.
     and_then (nullable numeric_in p_balance) (\<lambda>bal.
     and_then (required numeric_in p_target) (\<lambda>ta.
     and_then (required int8_in p_creation) (\<lambda>ct.
       Inr \<lparr>cr_id = i, cr_name = n, cr_creator_name = cn, cr_owner = ow,
            cr_balance = bal, cr_target_amount = ta, cr_creation_time = ct,
            cr_last_synced_at = now, cr_created_at = now, cr_updated_at = now\<rparr>)))))))"

definition upsert_campaign ::
  "(campaign_row \<Rightarrow> campaign_row \<Rightarrow> campaign_row) \<Rightarrow> time \<Rightarrow> int option \<Rightarrow> string option
     \<Rightarrow> string option \<Rightarrow> string option \<Rightarrow> string option \<Rightarrow> string option \<Rightarrow> int option
     \<Rightarrow> store \<Rightarrow> db_error + store" where
  "upsert_campaign set_list now p_id p_name p_creator p_owner p_balance p_target p_creation s =
     (case proposed_campaign now p_id p_name p_creator p_owner p_balance p_target p_creation of
        Inl e \<Rightarrow> Inl e
      | Inr excluded \<Rightarrow>
          if has_campaign s (cr_id excluded)
          then Inr (s\<lparr>campaigns :=
                 map (\<lambda>r. if cr_id r = cr_id excluded then set_list excluded r else r)
                     (campaigns s)\<rparr>)
          else Inr (s\<lparr>campaigns := campaigns s @ [excluded]\<rparr>))"

text \<open>
  The SET lists. \<open>last_synced_at\<close> is CURRENT\_TIMESTAMP in each; \<open>updated_at\<close> is set by the
  statement in the webhook and the poller and by the table's update trigger in the batch.
\<close>

definition set_campaign_webhook :: "campaign_row \<Rightarrow> campaign_row \<Rightarrow> campaign_row" where
  "set_campaign_webhook ex r =
     r\<lparr>cr_name := cr_name ex, cr_creator_name := cr_creator_name ex, cr_owner := cr_owner ex,
       cr_balance := cr_balance ex, cr_target_amount := cr_target_amount ex,
       cr_last_synced_at := cr_last_synced_at ex, cr_updated_at := cr_last_synced_at ex\<rparr>"

definition set_campaign_poller :: "campaign_row \<Rightarrow> campaign_row \<Rightarrow> campaign_row" where
  "set_campaign_poller ex r =
     r\<lparr>cr_name := cr_name ex, cr_creator_name := cr_creator_name ex,
       cr_balance := cr_balance ex, cr_target_amount := cr_target_amount ex,
       cr_last_synced_at := cr_last_synced_at ex, cr_updated_at := cr_last_synced_at ex\<rparr>"

definition set_campaign_batch :: "campaign_row \<Rightarrow> campaign_row \<Rightarrow> campaign_row" where
  "set_campaign_batch ex r =
     r\<lparr>cr_name := cr_name ex, cr_balance := cr_balance ex,
       cr_target_amount := cr_target_amount ex,
       cr_last_synced_at := cr_last_synced_at ex, cr_updated_at := cr_last_synced_at ex\<rparr>"

definition has_withdrawal :: "store \<Rightarrow> string \<Rightarrow> bool" where
  "has_withdrawal s i = (\<exists>r \<in> set (withdrawals s). wr_id r = i)"

text \<open>
  \<open>INSERT INTO blockchain_withdrawals (...) ON CONFLICT (id) DO NOTHING\<close>; parameters in the
  order id, campaign\_id, name, owner, creator\_name, amount, transaction\_hash,
  block\_number, timestamp.
\<close>

definition proposed_withdrawal ::
  "time \<Rightarrow> string option \<Rightarrow> int option \<Rightarrow> string option \<Rightarrow> string option \<Rightarrow> string option
     \<Rightarrow> string option \<Rightarrow> string option \<Rightarrow> int option \<Rightarrow> int option
     \<Rightarrow> db_error + withdrawal_row" where
  "proposed_withdrawal now p_id p_campaign p_name p_owner p_creator p_amount p_hash p_block p_time =
     and_then (required (varchar_in 255) p_id) (\<lambda>i.
     and_then (required int4_in p_campaign) (\<lambda>c.
     and_then (nullable (varchar_in 255) p_name) (\<lambda>n.
     and_then (required (varchar_in 42) p_owner) (\<lambda>ow.
     and_then (nullable (varchar_in 255) p_creator) (\<lambda>cn.
     and_then (required numeric_in p_amount) (\<lambda>a.
     and_then (required (varchar_in 66) p_hash) (\<lambda>h.
     and_then (required int8_in p_block) (\<lambda>b.
     and_then (required int8_in p_time) (\<lambda>t.
       Inr \<lparr>wr_id = i, wr_campaign_id = c, wr_name = n, wr_owner = ow,
            wr_creator_name = cn, wr_amount = a, wr_transaction_hash = h,
            wr_block_number = b, wr_timestamp = t,
            wr_last_synced_at = now, wr_created_at = now\<rparr>)))))))))"

definition insert_withdrawal ::
  "time \<Rightarrow> string option \<Rightarrow> int option \<Rightarrow> string option \<Rightarrow> string option \<Rightarrow> string option
     \<Rightarrow> string option \<Rightarrow> string option \<Rightarrow> int option \<Rightarrow> int option
     \<Rightarrow> store \<Rightarrow> db_error + store" where
  "insert_withdrawal now p_id p_campaign p_name p_owner p_creator p_amount p_hash p_block p_time s =
     (case proposed_withdrawal now p_id p_campaign p_name p_owner p_creator p_amount p_hash
             p_block p_time of
        Inl e \<Rightarrow> Inl e
      | Inr row \<Rightarrow>
          if has_withdrawal s (wr_id row) then Inr s
          else if \<not> has_campaign s (wr_campaign_id row) then Inl ForeignKeyViolation
          else Inr (s\<lparr>withdrawals := withdrawals s @ [row]\<rparr>))"

definition has_badge :: "store \<Rightarrow> int \<Rightarrow> bool" where
  "has_badge s i = (\<exists>r \<in> set (badges s). br_token_id r = i)"

text \<open>
  \<open>INSERT INTO blockchain_badges (token_id, owner, name, transaction_hash, block_number,
  timestamp, last_synced_at) ... ON CONFLICT (token_id) DO UPDATE SET owner = EXCLUDED.owner,
  last_synced_at = CURRENT_TIMESTAMP\<close>, the same text in the three callers. The row is
  made of the parameters as they are sent.
\<close>

definition upsert_badge ::
  "time \<Rightarrow> int option \<Rightarrow> string option \<Rightarrow> string option \<Rightarrow> string option \<Rightarrow> int option
     \<Rightarrow> int option \<Rightarrow> store \<Rightarrow> db_error + store" where
  "upsert_badge now p_token p_owner p_name p_hash p_block p_time s =
     (case (p_token, p_owner, p_name, p_hash, p_block, p_time) of
        (Some i, Some ow, Some n, Some h, Some b, Some t) \<Rightarrow>
          if has_badge s i
          then Inr (s\<lparr>badges :=
                 map (\<lambda>r. if br_token_id r = i
                           then r\<lparr>br_owner := ow, br_last_synced_at := now\<rparr> else r)
                     (badges s)\<rparr>)
          else Inr (s\<lparr>badges := badges s @
                 [\<lparr>br_token_id = i, br_owner = ow, br_name = n, br_transaction_hash = h,
                   br_block_number = b, br_timestamp = t,
                   br_last_synced_at = now, br_created_at = now\<rparr>]\<rparr>)
      | _ \<Rightarrow> Inl NotNullViolation)"

section \<open>The other webhook handlers\<close>

record campaign_body =
  cp_id :: "int field"
  cp_name :: "string field"
  cp_creatorName :: "string field"
  cp_owner :: "string field"
  cp_balance :: "string field"
  cp_targetAmount :: "string field"
  cp_creationTime :: "int field"

definition campaign_invalid :: "campaign_body \<Rightarrow> bool" where
  "campaign_invalid b =
     (cp_id b = Undefined \<or> \<not> truthy_str (cp_name b) \<or> \<not> truthy_str (cp_owner b) \<or>
      \<not> truthy_str (cp_targetAmount b) \<or> \<not> truthy_num (cp_creationTime b))"

definition campaign_query :: "time \<Rightarrow> campaign_body \<Rightarrow> store \<Rightarrow> db_error + store" where
  "campaign_query now b =
     upsert_campaign set_campaign_webhook now (sql_param (cp_id b)) (sql_param (cp_name b))
       (sql_param (or_str (cp_creatorName b) [])) (sql_param (cp_owner b))
       (sql_param (or_str (cp_balance b) ''0'')) (sql_param (cp_targetAmount b))
       (sql_param (cp_creationTime b))"

definition syncCampaign :: "time \<Rightarrow> campaign_body \<Rightarrow> store \<Rightarrow> response \<times> store" where
  "syncCampaign now b s =
     (if campaign_invalid b then (missing_fields, s)
      else case campaign_query now b s of
             Inl e \<Rightarrow> (error_response e, s)
           | Inr s1 \<Rightarrow>
               (ok_response ''Campaign synced successfully'',
                updateSyncStatus now ''campaign'' Undefined s1))"

record withdrawal_body =
  wd_id :: "string field"
  wd_campaignId :: "int field"
  wd_name :: "string field"
  wd_owner :: "string field"
  wd_creatorName :: "string field"
  wd_amount :: "string field"
  wd_transactionHash :: "string field"
  wd_blockNumber :: "int field"
  wd_timestamp :: "int field"

definition withdrawal_invalid :: "withdrawal_body \<Rightarrow> bool" where
  "withdrawal_invalid b =
     (wd_id b = Undefined \<or> wd_campaignId b = Undefined \<or> \<not> truthy_str (wd_owner b) \<or>
      \<not> truthy_str (wd_amount b) \<or> \<not> truthy_str (wd_transactionHash b))"

definition withdrawal_query :: "time \<Rightarrow> withdrawal_body \<Rightarrow> store \<Rightarrow> db_error + store" where
  "withdrawal_query now b =
     insert_withdrawal now (sql_param (wd_id b)) (sql_param (wd_campaignId b))
       (sql_param (or_str (wd_name b) [])) (sql_param (wd_owner b))
       (sql_param (or_str (wd_creatorName b) [])) (sql_param (wd_amount b))
       (sql_param (wd_transactionHash b)) (sql_param (wd_blockNumber b))
       (sql_param (wd_timestamp b))"

definition syncWithdrawal :: "time \<Rightarrow> withdrawal_body \<Rightarrow> store \<Rightarrow> response \<times> store" where
  "syncWithdrawal now b s =
     (if withdrawal_invalid b then (missing_fields, s)
      else case withdrawal_query now b s of
             Inl e \<Rightarrow> (error_response e, s)
           | Inr s1 \<Rightarrow>
               (ok_response ''Withdrawal synced successfully'',
                updateSyncStatus now ''withdrawal'' (wd_blockNumber b) s1))"

record badge_body =
  bg_tokenId :: "int field"
  bg_owner :: "string field"
  bg_name :: "string field"
  bg_transactionHash :: "string field"
  bg_blockNumber :: "int field"
  bg_timestamp :: "int field"

definition badge_invalid :: "badge_body \<Rightarrow> bool" where
  "badge_invalid b =
     (bg_tokenId b = Undefined \<or> \<not> truthy_str (bg_owner b) \<or> \<not> truthy_str (bg_name b) \<or>
      \<not> truthy_str (bg_transactionHash b))"

definition badge_query :: "time \<Rightarrow> badge_body \<Rightarrow> store \<Rightarrow> db_error + store" where
  "badge_query now b =
     upsert_badge now (sql_param (bg_tokenId b)) (sql_param (bg_owner b)) (sql_param (bg_name b))
       (sql_param (bg_transactionHash b)) (sql_param (bg_blockNumber b))
       (sql_param (bg_timestamp b))"

definition syncBadge :: "time \<Rightarrow> badge_body \<Rightarrow> store \<Rightarrow> response \<times> store" where
  "syncBadge now b s =
     (if badge_invalid b then (missing_fields, s)
      else case badge_query now b s of
             Inl e \<Rightarrow> (error_response e, s)
           | Inr s1 \<Rightarrow>
               (ok_response ''Badge synced successfully'',
                updateSyncStatus now ''badge'' (bg_blockNumber b) s1))"

section \<open>The batch handler (syncController.ts, syncBatch)\<close>

text \<open>
  A transaction on the handler's connection: \<open>BEGIN\<close> keeps the store as it is at that
  moment, every statement of the transaction reads and writes the working copy,
  \<open>COMMIT\<close> publishes the working copy and \<open>ROLLBACK\<close> goes back to the kept store.
\<close>

record session =
  work :: store
  kept :: store

definition begin_tx :: "store \<Rightarrow> session" where
  "begin_tx s = \<lparr>work = s, kept = s\<rparr>"

definition commit_tx :: "session \<Rightarrow> store" where
  "commit_tx c = work c"

definition rollback_tx :: "session \<Rightarrow> store" where
  "rollback_tx c = kept c"

text \<open>
  A \<open>for\<close> loop of awaited statements inside the \<open>try\<close>, on the connection of the
  transaction: the first error leaves the loop with the connection as the statements before
  it left it.
\<close>

fun run_in_tx ::
  "('a \<Rightarrow> store \<Rightarrow> db_error + store) \<Rightarrow> 'a list \<Rightarrow> session \<Rightarrow> db_error option \<times> session" where
  "run_in_tx q [] c = (None, c)"
| "run_in_tx q (x # xs) c =
     (case q x (work c) of
        Inl e \<Rightarrow> (Some e, c)
      | Inr w \<Rightarrow> run_in_tx q xs (c\<lparr>work := w\<rparr>))"

text \<open>
  The arrays of the body; \<open>None\<close> is a key that is absent or not an array, which the
  handler skips (\<open>campaigns && Array.isArray(campaigns)\<close>).
\<close>

record batch_body =
  bb_campaigns :: "campaign_body list option"
  bb_donations :: "donation_body list option"
  bb_withdrawals :: "withdrawal_body list option"
  bb_badges :: "badge_body list option"

definition items_of :: "'a list option \<Rightarrow> 'a list" where
  "items_of xs = (case xs of None \<Rightarrow> [] | Some ys \<Rightarrow> ys)"

text \<open>
  The batch passes the fields of an item as they are, with no defaults. The counts that
  the answer carries are not modelled.
\<close>

definition batch_campaign_query :: "time \<Rightarrow> campaign_body \<Rightarrow> store \<Rightarrow> db_error + store" where
  "batch_campaign_query now c =
     upsert_campaign set_campaign_batch now (sql_param (cp_id c)) (sql_param (cp_name c))
       (sql_param (cp_creatorName c)) (sql_param (cp_owner c)) (sql_param (cp_balance c))
       (sql_param (cp_targetAmount c)) (sql_param (cp_creationTime c))"

definition batch_withdrawal_query :: "time \<Rightarrow> withdrawal_body \<Rightarrow> store \<Rightarrow> db_error + store" where
  "batch_withdrawal_query now w =
     insert_withdrawal now (sql_param (wd_id w)) (sql_param (wd_campaignId w))
       (sql_param (wd_name w)) (sql_param (wd_owner w)) (sql_param (wd_creatorName w))
       (sql_param (wd_amount w)) (sql_param (wd_transactionHash w))
       (sql_param (wd_blockNumber w)) (sql_param (wd_timestamp w))"

definition batch_statements ::
  "time \<Rightarrow> batch_body \<Rightarrow> session \<Rightarrow> db_error option \<times> session" where
  "batch_statements now body c =
     (case run_in_tx (batch_campaign_query now) (items_of (bb_campaigns body)) c of
        (Some e, c1) \<Rightarrow> (Some e, c1)
      | (None, c1) \<Rightarrow>
     (case run_in_tx (donation_query now) (items_of (bb_donations body)) c1 of
        (Some e, c2) \<Rightarrow> (Some e, c2)
      | (None, c2) \<Rightarrow>
     (case run_in_tx (batch_withdrawal_query now) (items_of (bb_withdrawals body)) c2 of
        (Some e, c3) \<Rightarrow> (Some e, c3)
      | (None, c3) \<Rightarrow> run_in_tx (badge_query now) (items_of (bb_badges body)) c3)))"

text \<open>The handler: \<open>BEGIN\<close>, the loops, then \<open>COMMIT\<close>, or \<open>ROLLBACK\<close> in the \<open>catch\<close>.\<close>

definition syncBatch :: "time \<Rightarrow> batch_body \<Rightarrow> store \<Rightarrow> response \<times> store" where
  "syncBatch now body s =
     (case batch_statements now body (begin_tx s) of
        (Some e, c) \<Rightarrow> (error_response e, rollback_tx c)
      | (None, c) \<Rightarrow> (ok_response ''Batch sync completed'', commit_tx c))"

section \<open>The poller (services/autoSync.ts)\<close>

text \<open>
  What one run meets outside the process: whether \<open>pool.connect()\<close> gives a connection,
  and the answer of the indexer to each of the four queries (\<open>None\<close> when the request
  raises; a missing \<open>items\<close> list reads as the empty list).
\<close>

record ponder_env =
  pe_connect :: bool
  pe_campaigns :: "campaign_body list option"
  pe_donations :: "donation_body list option"
  pe_badges :: "badge_body list option"
  pe_withdrawals :: "withdrawal_body list option"

text \<open>The module-scoped flag and the store.\<close>

record proc =
  isRunning :: bool
  db :: store

text \<open>
  A loop of the poller: each statement commits as it returns, so the rows written before
  the first error stay, and the \<open>catch\<close> of the entity type ends the loop.
\<close>

fun run_until_error :: "('a \<Rightarrow> store \<Rightarrow> db_error + store) \<Rightarrow> 'a list \<Rightarrow> store \<Rightarrow> store" where
  "run_until_error q [] s = s"
| "run_until_error q (x # xs) s =
     (case q x s of Inl e \<Rightarrow> s | Inr s1 \<Rightarrow> run_until_error q xs s1)"

definition poll_campaign_query :: "time \<Rightarrow> campaign_body \<Rightarrow> store \<Rightarrow> db_error + store" where
  "poll_campaign_query now c =
     upsert_campaign set_campaign_poller now (sql_param (cp_id c)) (sql_param (cp_name c))
       (sql_param (or_str (cp_creatorName c) [])) (sql_param (cp_owner c))
       (sql_param (or_str (cp_balance c) ''0'')) (sql_param (cp_targetAmount c))
       (sql_param (cp_creationTime c))"

definition poll_store :: "time \<Rightarrow> ponder_env \<Rightarrow> store \<Rightarrow> store" where
  "poll_store now env s =
     (let s1 = run_until_error (poll_campaign_query now) (items_of (pe_campaigns env)) s;
          s2 = run_until_error (donation_query now) (items_of (pe_donations env)) s1;
          s3 = run_until_error (badge_query now) (items_of (pe_badges env)) s2
      in run_until_error (withdrawal_query now) (items_of (pe_withdrawals env)) s3)"

text \<open>
  \<open>syncFromPonder\<close>: the flag is tested and set with no \<open>await\<close> in between; the
  connection is awaited before the \<open>try\<close> whose \<open>finally\<close> clears the flag.
\<close>

definition syncFromPonder :: "time \<Rightarrow> ponder_env \<Rightarrow> proc \<Rightarrow> proc" where
  "syncFromPonder now env p =
     (if isRunning p then p
      else let p1 = p\<lparr>isRunning := True\<rparr>
           in if \<not> pe_connect env then p1
              else p1\<lparr>db := poll_store now env (db p1), isRunning := False\<rparr>)"

section \<open>Strings and numbers of the settlement path\<close>

text \<open>\<open>String.prototype.includes\<close>.\<close>

fun str_includes :: "string \<Rightarrow> string \<Rightarrow> bool" where
  "str_includes [] n = (n = [])"
| "str_includes (c # cs) n = (starts_with (c # cs) n \<or> str_includes cs n)"

text \<open>
  SQL \<open>LIKE\<close> with the default escape character: \<open>%\<close> matches any run of characters,
  \<open>_\<close> one character, and a backslash makes the next pattern character literal. A pattern
  that ends in a lone backslash is an error in the database; the pattern of the handler
  ends in \<open>%\<close>, so it has no such end, and the case reads as no match here.
\<close>

fun like :: "string \<Rightarrow> string \<Rightarrow> bool" where
  "like [] [] = True"
| "like (c # cs) [] = False"
| "like [] (p # ps) = (p = CHR ''%'' \<and> like [] ps)"
| "like (c # cs) (p # ps) =
     (if p = CHR ''%'' then like (c # cs) ps \<or> like cs (p # ps)
      else if p = CHR ''_'' then like cs ps
      else if p = CHR 0x5C then (case ps of [] \<Rightarrow> False | q # qs \<Rightarrow> c = q \<and> like cs qs)
      else c = p \<and> like cs ps)"

text \<open>\<open>String.prototype.split\<close> on one character.\<close>

fun split_on :: "char \<Rightarrow> string \<Rightarrow> string list" where
  "split_on d [] = [] # []"
| "split_on d (x # xs) =
     (if x = d then [] # split_on d xs
      else case split_on d xs of [] \<Rightarrow> [x] # [] | p # ps \<Rightarrow> (x # p) # ps)"

text \<open>
  A JavaScript number that is an integer, or NaN. The settled amount is a whole number
  of rupiah; other floating-point values are outside the model.
\<close>

datatype number = NaN | Num int

fun read_digits :: "(char \<Rightarrow> nat option) \<Rightarrow> int \<Rightarrow> string \<Rightarrow> int option \<Rightarrow> int option" where
  "read_digits dv base [] acc = acc"
| "read_digits dv base (c # cs) acc =
     (case dv c of
        None \<Rightarrow> acc
      | Some d \<Rightarrow>
          read_digits dv base cs (Some (base * (case acc of None \<Rightarrow> 0 | Some a \<Rightarrow> a) + int d)))"

text \<open>
  \<open>parseInt\<close> with no radix: leading white space, a sign, \<open>0x\<close> for base 16, then the
  longest run of digits; NaN when there is none.
\<close>

definition js_parseInt :: "string \<Rightarrow> number" where
  "js_parseInt s =
     (let t = dropWhile is_space s;
          neg = (case t of [] \<Rightarrow> False | c # _ \<Rightarrow> c = CHR ''-'');
          u = (case t of [] \<Rightarrow> [] | c # r \<Rightarrow> if c = CHR ''-'' \<or> c = CHR ''+'' then r else t);
          v = (case u of
                 a # b # r \<Rightarrow>
                   if a = CHR ''0'' \<and> (b = CHR ''x'' \<or> b = CHR ''X'')
                   then read_digits hex_digit 16 r None
                   else read_digits dec_digit 10 u None
               | _ \<Rightarrow> read_digits dec_digit 10 u None)
      in case v of None \<Rightarrow> NaN | Some n \<Rightarrow> Num (if neg then - n else n))"

text \<open>\<open>Number.prototype.toString\<close> on an integer.\<close>

definition digit_char :: "int \<Rightarrow> char" where
  "digit_char d =
     (if d = 0 then CHR ''0'' else if d = 1 then CHR ''1'' else if d = 2 then CHR ''2''
      else if d = 3 then CHR ''3'' else if d = 4 then CHR ''4'' else if d = 5 then CHR ''5''
      else if d = 6 then CHR ''6'' else if d = 7 then CHR ''7'' else if d = 8 then CHR ''8''
      else CHR ''9'')"

function show_digits :: "int \<Rightarrow> string" where
  "show_digits n =
     (if n < 10 then [digit_char n] else show_digits (n div 10) @ [digit_char (n mod 10)])"
  by pat_completeness auto
termination
  by (relation "measure nat") auto

definition show_int :: "int \<Rightarrow> string" where
  "show_int i = (if i < 0 then CHR ''-'' # show_digits (- i) else show_digits i)"

section \<open>The Chain Writer (contributionController.ts, mintAndDonateIDRX)\<close>

record js_error =
  err_code :: "string field"
  err_message :: "string field"

record receipt =
  rc_hash :: string
  rc_block :: int

text \<open>
  What one run of the sequence meets on the chain: an error raised while the contracts
  and the amount are prepared, and for each step either the error raised by its nonce
  query, its submission or its wait, or the receipt of the confirmed transaction.
\<close>

record chain_env =
  ch_idrx_address :: string
  ch_campaign_address :: string
  ch_setup :: "js_error option"
  ch_mint :: "js_error + receipt"
  ch_approve :: "js_error + receipt"
  ch_donate :: "js_error + receipt"

text \<open>The confirmed transactions of the backend wallet, oldest first.\<close>

datatype chain_tx = MintTx int | ApproveTx int | DonateTx int int

record donate_data =
  dd_mintTxHash :: string
  dd_approveTxHash :: string
  dd_donateTxHash :: string
  dd_blockNumber :: int
  dd_amount :: int
  dd_campaignId :: int
  dd_idrxAddress :: string
  dd_campaignAddress :: string

record chain_result =
  cw_success :: bool
  cw_message :: string
  cw_error :: "string option"
  cw_data :: "donate_data option"

definition message_includes :: "string field \<Rightarrow> string \<Rightarrow> bool" where
  "message_includes m n = (case m of Val t \<Rightarrow> str_includes t n | _ \<Rightarrow> False)"

definition str_or :: "string field \<Rightarrow> string \<Rightarrow> string" where
  "str_or x d = (case x of Val v \<Rightarrow> if v = [] then d else v | _ \<Rightarrow> d)"

text \<open>The \<open>catch\<close> block of the sequence.\<close>

definition classify :: "int \<Rightarrow> js_error \<Rightarrow> chain_result" where
  "classify campaignId err =
     (if err_code err = Val ''NONCE_EXPIRED'' \<or> message_includes (err_message err) ''nonce''
      then \<lparr>cw_success = False,
            cw_message = ''Transaction nonce conflict. Please try again in a few seconds.'',
            cw_error = Some ''NONCE_ERROR'', cw_data = None\<rparr>
      else if message_includes (err_message err) ''CampaignNotFound''
      then \<lparr>cw_success = False,
            cw_message = ''Campaign #'' @ show_int campaignId @ '' does not exist on blockchain'',
            cw_error = Some ''CAMPAIGN_NOT_FOUND'', cw_data = None\<rparr>
      else \<lparr>cw_success = False,
            cw_message = str_or (err_message err) ''Failed to mint and donate IDRX'',
            cw_error = None, cw_data = None\<rparr>)"

text \<open>
  \<open>mintAndDonateIDRX\<close>, with the list of confirmed transactions passed through. The
  amount is in rupiah and the token has two decimals (\<open>parseUnits(amount, 2)\<close>). The
  campaign id is a number at the only call site, so the test \<open>campaignId === undefined\<close>
  of the guard is never true there and the guard is \<open>!amount\<close>.
\<close>

definition mintAndDonateIDRX ::
  "number \<Rightarrow> int \<Rightarrow> chain_env \<Rightarrow> chain_tx list \<Rightarrow> chain_result \<times> chain_tx list" where
  "mintAndDonateIDRX amount campaignId env chain =
     (case amount of
        NaN \<Rightarrow>
          (\<lparr>cw_success = False, cw_message = ''Amount and campaignId are required'',
            cw_error = None, cw_data = None\<rparr>, chain)
      | Num a \<Rightarrow>
          if a = 0
          then (\<lparr>cw_success = False, cw_message = ''Amount and campaignId are required'',
                 cw_error = None, cw_data = None\<rparr>, chain)
          else
            (let amountToMint = a * 100
             in case ch_setup env of
                  Some err \<Rightarrow> (classify campaignId err, chain)
                | None \<Rightarrow>
               (case ch_mint env of
                  Inl err \<Rightarrow> (classify campaignId err, chain)
                | Inr mintTx \<Rightarrow>
               (let chain1 = chain @ [MintTx amountToMint]
                in case ch_approve env of
                  Inl err \<Rightarrow> (classify campaignId err, chain1)
                | Inr approveTx \<Rightarrow>
               (let chain2 = chain1 @ [ApproveTx amountToMint]
                in case ch_donate env of
                  Inl err \<Rightarrow> (classify campaignId err, chain2)
                | Inr donateReceipt \<Rightarrow>
                    (\<lparr>cw_success = True, cw_message = [], cw_error = None,
                      cw_data = Some
                        \<lparr>dd_mintTxHash = rc_hash mintTx, dd_approveTxHash = rc_hash approveTx,
                         dd_donateTxHash = rc_hash donateReceipt,
                         dd_blockNumber = rc_block donateReceipt,
                         dd_amount = a, dd_campaignId = campaignId,
                         dd_idrxAddress = ch_idrx_address env,
                         dd_campaignAddress = ch_campaign_address env\<rparr>\<rparr>,
                     chain2 @ [DonateTx campaignId amountToMint]))))))"

section \<open>The settlement confirmation (contributionController.ts, getQRISStatus)\<close>

text \<open>
  The answer of the payment provider to the status request. \<open>pr_gross_amount\<close> is the
  number that \<open>parseFloat\<close> reads from the provider's \<open>gross_amount\<close>.
\<close>

record provider_response =
  pr_transaction_status :: string
  pr_order_id :: string
  pr_gross_amount :: number

text \<open>
  What one call meets outside the process: the provider's answer (\<open>None\<close> when the
  request raises), the chain, and whether the donation table of the deployed database has
  the three QRIS columns that the handler's insert names.
\<close>

record qris_env =
  qe_provider :: "provider_response option"
  qe_chain :: chain_env
  qe_qris_columns :: bool

text \<open>The store together with the chain.\<close>

record world =
  w_db :: store
  w_chain :: "chain_tx list"

record qris_response =
  q_status :: nat
  q_success :: bool
  q_message :: string
  q_row :: "donation_row option"
  q_donation :: "donate_data option"

definition qris_reply :: "nat \<Rightarrow> bool \<Rightarrow> string \<Rightarrow> qris_response" where
  "qris_reply st ok m =
     \<lparr>q_status = st, q_success = ok, q_message = m, q_row = None, q_donation = None\<rparr>"

text \<open>\<open>SELECT * FROM blockchain_donations WHERE id LIKE $1\<close> with \<open>qris-${orderId}%\<close>.\<close>

definition check_query :: "string \<Rightarrow> store \<Rightarrow> donation_row list" where
  "check_query orderId s = filter (\<lambda>r. like (dr_id r) (''qris-'' @ orderId @ ''%'')) (donations s)"

text \<open>
  The insert of the handler, a plain \<open>INSERT\<close> with no conflict clause, on the columns
  id, campaign\_id, donor, amount, transaction\_hash, block\_number, timestamp,
  payment\_method, qris\_order\_id, qris\_gross\_amount. The two timestamps take their
  column default, and the three columns that the table declaration lacks hold their
  parameters as sent.
\<close>

definition insert_qris_donation ::
  "bool \<Rightarrow> time \<Rightarrow> string \<Rightarrow> int \<Rightarrow> string \<Rightarrow> string \<Rightarrow> string \<Rightarrow> int \<Rightarrow> int \<Rightarrow> string
     \<Rightarrow> string \<Rightarrow> int \<Rightarrow> store \<Rightarrow> db_error + store" where
  "insert_qris_donation qris_columns now p_id p_campaign p_donor p_amount p_hash p_block p_time
       p_method p_order p_gross s =
     (if \<not> qris_columns then Inl UndefinedColumn
      else
        case proposed_donation now (Some p_id) (Some p_campaign) (Some p_donor) (Some p_amount)
               (Some p_hash) (Some p_block) (Some p_time) of
          Inl e \<Rightarrow> Inl e
        | Inr row \<Rightarrow>
            if has_donation s (dr_id row) then Inl UniqueViolation
            else if \<not> has_campaign s (dr_campaign_id row) then Inl ForeignKeyViolation
            else Inr (s\<lparr>donations := donations s @
                   [row\<lparr>dr_payment_method := Some p_method, dr_qris_order_id := Some p_order,
                        dr_qris_gross_amount := Some p_gross\<rparr>]\<rparr>))"

definition opt_str_or :: "string option \<Rightarrow> string \<Rightarrow> string" where
  "opt_str_or x d = (case x of Some v \<Rightarrow> if v = [] then d else v | None \<Rightarrow> d)"

text \<open>
  The inner \<open>try\<close> of the handler: an error of the insert, or of \<open>parseUnits\<close> on an
  amount that is not a number, is logged and dropped.
\<close>

definition save_qris_donation ::
  "bool \<Rightarrow> time \<Rightarrow> provider_response \<Rightarrow> int \<Rightarrow> number \<Rightarrow> donate_data option \<Rightarrow> store \<Rightarrow> store" where
  "save_qris_donation qris_columns now resp campaignId amount dd s =
     (case amount of
        NaN \<Rightarrow> s
      | Num a \<Rightarrow>
         (let donationId = ''qris-'' @ pr_order_id resp;
              backendWallet =
                to_lower (opt_str_or (map_option dd_campaignAddress dd)
                            ''0x0000000000000000000000000000000000000000'')
          in case insert_qris_donation qris_columns now donationId campaignId backendWallet
                    (show_int (a * 100))
                    (opt_str_or (map_option dd_donateTxHash dd) ''pending'')
                    (case dd of None \<Rightarrow> 0 | Some d \<Rightarrow> dd_blockNumber d)
                    (int now) ''QRIS'' (pr_order_id resp) a s of
               Inl e \<Rightarrow> s
             | Inr s1 \<Rightarrow> s1))"

definition getQRISStatus :: "time \<Rightarrow> string \<Rightarrow> qris_env \<Rightarrow> world \<Rightarrow> qris_response \<times> world" where
  "getQRISStatus now orderId env w =
     (case check_query orderId (w_db w) of
        r # rs \<Rightarrow>
          ((qris_reply 200 True ''Transaction already processed'')\<lparr>q_row := Some r\<rparr>, w)
      | [] \<Rightarrow>
     (case qe_provider env of
        None \<Rightarrow> (qris_reply 500 False ''Internal server error'', w)
      | Some resp \<Rightarrow>
          if pr_transaction_status resp = ''settlement''
          then
            (let orderParts = split_on (CHR ''-'') (pr_order_id resp);
                 campaignId = (if 1 < length orderParts then js_parseInt (orderParts ! 1) else NaN);
                 amount = pr_gross_amount resp
             in case campaignId of
                  NaN \<Rightarrow> (qris_reply 400 False ''Invalid order_id format'', w)
                | Num cid \<Rightarrow>
                    if \<not> has_campaign (w_db w) cid
                    then (qris_reply 404 False ''Campaign not found'', w)
                    else
                      (let (donateResult, chain1) =
                             mintAndDonateIDRX amount cid (qe_chain env) (w_chain w)
                       in if \<not> cw_success donateResult
                          then (qris_reply 500 False ''Minting and donation failed'',
                                w\<lparr>w_chain := chain1\<rparr>)
                          else
                            ((qris_reply 200 True
                                ''QRIS payment processed and donated to blockchain campaign'')
                               \<lparr>q_donation := cw_data donateResult\<rparr>,
                             \<lparr>w_db = save_qris_donation (qe_qris_columns env) now resp cid amount
                                       (cw_data donateResult) (w_db w),
                              w_chain = chain1\<rparr>)))
          else (qris_reply 200 False ''Transaction not settled'', w)))"

section \<open>Readings of the store and sample data\<close>

definition last_block_numbers :: "string \<Rightarrow> store \<Rightarrow> int option list" where
  "last_block_numbers e s =
     map ss_last_block_number (filter (\<lambda>r. ss_entity_type r = e) (sync_status s))"

definition total_synced_of :: "string \<Rightarrow> store \<Rightarrow> int list" where
  "total_synced_of e s =
     map ss_total_synced (filter (\<lambda>r. ss_entity_type r = e) (sync_status s))"

definition last_synced_of :: "string \<Rightarrow> store \<Rightarrow> time list" where
  "last_synced_of e s =
     map ss_last_synced_at (filter (\<lambda>r. ss_entity_type r = e) (sync_status s))"

text \<open>The counter of every row of the entity type can still be incremented.\<close>

definition sync_headroom :: "string \<Rightarrow> store \<Rightarrow> bool" where
  "sync_headroom e s =
     (\<forall>r \<in> set (sync_status s). ss_entity_type r = e \<longrightarrow> ss_total_synced r < int4_max)"

text \<open>The donation of the end-to-end scenario of the specification, and a campaign for it.\<close>

definition example_donation :: donation_body where
  "example_donation =
     \<lparr>dn_id = Val ''d1'', dn_campaignId = Val 7, dn_donor = Val ''0xabc'',
      dn_amount = Val ''10000'', dn_transactionHash = Val ''0x123'',
      dn_blockNumber = Val 100, dn_timestamp = Val 1700000000\<rparr>"

definition example_campaign :: campaign_body where
  "example_campaign =
     \<lparr>cp_id = Val 7, cp_name = Val ''School'', cp_creatorName = Val ''Ana'',
      cp_owner = Val ''0xaaa'', cp_balance = Val ''100'', cp_targetAmount = Val ''1000'',
      cp_creationTime = Val 1690000000\<rparr>"

text \<open>The stored donations of one id, and the row that the columns make of a body.\<close>

definition donation_rows :: "string \<Rightarrow> store \<Rightarrow> donation_row list" where
  "donation_rows i s = filter (\<lambda>r. dr_id r = i) (donations s)"

definition sent_donation :: "time \<Rightarrow> donation_body \<Rightarrow> db_error + donation_row" where
  "sent_donation now b =
     proposed_donation now (sql_param (dn_id b)) (sql_param (dn_campaignId b))
       (sql_param (dn_donor b)) (sql_param (dn_amount b)) (sql_param (dn_transactionHash b))
       (sql_param (dn_blockNumber b)) (sql_param (dn_timestamp b))"

definition example_store :: store where
  "example_store = snd (syncCampaign 1 example_campaign (empty_store 0))"

definition example_replay :: donation_body where
  "example_replay = example_donation\<lparr>dn_donor := Val ''0xdef'', dn_amount := Val ''999''\<rparr>"

definition example_poll :: ponder_env where
  "example_poll =
     \<lparr>pe_connect = True, pe_campaigns = None,
      pe_donations = Some [example_donation, example_replay],
      pe_badges = None, pe_withdrawals = None\<rparr>"

text \<open>The fields of a badge that the mint fixes, and the update of the conflict clause.\<close>

definition badge_identity :: "badge_row \<Rightarrow> int \<times> string \<times> string \<times> int \<times> int \<times> time" where
  "badge_identity r =
     (br_token_id r, br_name r, br_transaction_hash r, br_block_number r, br_timestamp r,
      br_created_at r)"

definition badge_transfer :: "time \<Rightarrow> int \<Rightarrow> string \<Rightarrow> badge_row \<Rightarrow> badge_row" where
  "badge_transfer now t ow r =
     (if br_token_id r = t then r\<lparr>br_owner := ow, br_last_synced_at := now\<rparr> else r)"





text \<open>The stored campaign 7 sent again with another owner and name.\<close>

definition example_campaign_moved :: campaign_body where
  "example_campaign_moved =
     example_campaign\<lparr>cp_name := Val ''School 2'', cp_owner := Val ''0xbbb''\<rparr>"

definition example_poll_campaign :: ponder_env where
  "example_poll_campaign =
     \<lparr>pe_connect = True, pe_campaigns = Some [example_campaign_moved],
      pe_donations = None, pe_badges = None, pe_withdrawals = None\<rparr>"

definition example_batch_campaign :: batch_body where
  "example_batch_campaign =
     \<lparr>bb_campaigns = Some [example_campaign_moved], bb_donations = None,
      bb_withdrawals = None, bb_badges = None\<rparr>"

definition example_batch_donation :: batch_body where
  "example_batch_donation =
     \<lparr>bb_campaigns = None, bb_donations = Some [example_donation],
      bb_withdrawals = None, bb_badges = None\<rparr>"

definition example_poll_donation :: ponder_env where
  "example_poll_donation =
     \<lparr>pe_connect = True, pe_campaigns = None, pe_donations = Some [example_donation],
      pe_badges = None, pe_withdrawals = None\<rparr>"

text \<open>
  A run of statements on a bare store, which gives the store after the last one or the
  first error; the statements of a batch in the order in which the handler runs them; and
  a donation item with a NULL in a parameter of a NOT NULL column.
\<close>

fun run_all :: "('a \<Rightarrow> store \<Rightarrow> db_error + store) \<Rightarrow> 'a list \<Rightarrow> store \<Rightarrow> db_error + store" where
  "run_all q [] s = Inr s"
| "run_all q (x # xs) s = (case q x s of Inl e \<Rightarrow> Inl e | Inr s1 \<Rightarrow> run_all q xs s1)"

definition batch_queue :: "time \<Rightarrow> batch_body \<Rightarrow> (store \<Rightarrow> db_error + store) list" where
  "batch_queue now body =
     map (batch_campaign_query now) (items_of (bb_campaigns body)) @
     map (donation_query now) (items_of (bb_donations body)) @
     map (batch_withdrawal_query now) (items_of (bb_withdrawals body)) @
     map (badge_query now) (items_of (bb_badges body))"



text \<open>A chain on which the mint and the approve confirm and the donate reverts.\<close>

definition example_chain_revert :: chain_env where
  "example_chain_revert =
     \<lparr>ch_idrx_address = ''0x1D'', ch_campaign_address = ''0xCA'', ch_setup = None,
      ch_mint = Inr \<lparr>rc_hash = ''0xm1'', rc_block = 10\<rparr>,
      ch_approve = Inr \<lparr>rc_hash = ''0xa1'', rc_block = 11\<rparr>,
      ch_donate = Inl \<lparr>err_code = Val ''CALL_EXCEPTION'',
                       err_message = Val ''reverted: CampaignNotFound''\<rparr>\<rparr>"

text \<open>A tick on which no connection can be had.\<close>

definition example_poll_down :: ponder_env where
  "example_poll_down = example_poll_donation\<lparr>pe_connect := False\<rparr>"

text \<open>
  A settled payment of 10000 rupiah for campaign 7, on a chain where the three steps
  confirm, with the donation table as src/sql/blockchain\_cache.sql declares it.
\<close>

definition example_chain_ok :: chain_env where
  "example_chain_ok =
     \<lparr>ch_idrx_address = ''0x1D'', ch_campaign_address = ''0xCA'', ch_setup = None,
      ch_mint = Inr \<lparr>rc_hash = ''0xm1'', rc_block = 10\<rparr>,
      ch_approve = Inr \<lparr>rc_hash = ''0xa1'', rc_block = 11\<rparr>,
      ch_donate = Inr \<lparr>rc_hash = ''0xd1'', rc_block = 12\<rparr>\<rparr>"

definition example_settled :: qris_env where
  "example_settled =
     \<lparr>qe_provider = Some \<lparr>pr_transaction_status = ''settlement'',
                           pr_order_id = ''qris-7-1700000000000'',
                           pr_gross_amount = Num 10000\<rparr>,
      qe_chain = example_chain_ok,
      qe_qris_columns = False\<rparr>"

definition example_world :: world where
  "example_world = \<lparr>w_db = example_store, w_chain = []\<rparr>"

definition example_donated :: store where
  "example_donated = snd (syncDonation 2 example_donation example_store)"

definition example_replay_null :: donation_body where
  "example_replay_null = example_replay\<lparr>dn_campaignId := Null\<rparr>"

definition example_replay_long :: donation_body where
  "example_replay_long = example_replay\<lparr>dn_amount := Val ''1000000000000000000000000000000''\<rparr>"

text \<open>
  A chain on which the mint and the approve confirm and the donate reverts for a missing
  campaign, with an error message that ends in the transaction that was refused.
\<close>

definition example_chain_revert_tx :: chain_env where
  "example_chain_revert_tx =
     example_chain_revert
       \<lparr>ch_donate := Inl \<lparr>err_code = Val ''CALL_EXCEPTION'',
                          err_message = Val ''execution reverted: CampaignNotFound (transaction: to 0xCA, nonce 12)''\<rparr>\<rparr>"

section \<open>Properties\<close>

subsection \<open>Sync status\<close>

lemma updateSyncStatus_ok:
  assumes "sync_headroom e s"
  shows "updateSyncStatus now e bn s =
           s\<lparr>sync_status :=
               map (\<lambda>r. if ss_entity_type r = e then bump_sync_row now (sql_param bn) r else r)
                   (sync_status s)\<rparr>"
  using assms
  by (auto simp: updateSyncStatus_def update_sync_status_query_def sync_headroom_def)

lemma sync_headroom_empty_store: "sync_headroom e (empty_store t)"
  by (simp add: sync_headroom_def empty_store_def seed_row_def int4_max_def)

text \<open>
  C3, as the code has it: when a block number is supplied and the update goes through,
  the stored last block number of the entity type is the supplied number, whatever it was
  before (\<open>COALESCE($1, last_block_number)\<close>).
\<close>

theorem updateSyncStatus_overwrites_block:
  assumes "sync_headroom e s"
  shows "last_block_numbers e (updateSyncStatus now e (Val b) s)
           = map (\<lambda>_. Some b) (last_block_numbers e s)"
  unfolding updateSyncStatus_ok [OF assms] last_block_numbers_def
  by (induction "sync_status s") (auto simp: bump_sync_row_def filter_map comp_def)

theorem updateSyncStatus_overwrites_block_witness:
  "sync_headroom ''donation'' (empty_store 0) \<and>
   last_block_numbers ''donation'' (empty_store 0) = [Some 0] \<and>
   last_block_numbers ''donation'' (updateSyncStatus 1 ''donation'' (Val 100) (empty_store 0))
     = [Some 100]"
proof -
  have h: "sync_headroom ''donation'' (empty_store 0)"
    by (rule sync_headroom_empty_store)
  have "last_block_numbers ''donation'' (empty_store 0) = [Some 0]"
    by (simp add: last_block_numbers_def empty_store_def seed_row_def)
  with updateSyncStatus_overwrites_block [OF h, of 1 100] h show ?thesis by simp
qed

text \<open>
  C3, as the specification states it, fails: with the watermark at block 100, an update
  that supplies block 50 leaves 50 in the store, not \<open>max 100 50\<close>.
\<close>

theorem updateSyncStatus_max_counterexample:
  "last_block_numbers ''donation''
     (updateSyncStatus 1 ''donation'' (Val 100) (empty_store 0)) = [Some 100] \<and>
   last_block_numbers ''donation''
     (updateSyncStatus 2 ''donation'' (Val 50)
        (updateSyncStatus 1 ''donation'' (Val 100) (empty_store 0))) = [Some 50] \<and>
   last_block_numbers ''donation''
     (updateSyncStatus 2 ''donation'' (Val 50)
        (updateSyncStatus 1 ''donation'' (Val 100) (empty_store 0))) \<noteq> [Some (max 100 50)]"
  by (simp add: last_block_numbers_def updateSyncStatus_def update_sync_status_query_def
      empty_store_def seed_row_def bump_sync_row_def int4_max_def)

subsection \<open>Validation of the donation webhook\<close>

text \<open>
  C10: a donation body whose block number is 0, whose timestamp is 0 or whose amount is
  the empty string is answered 400 "Missing required fields", and the store is as before,
  although every required field is present.
\<close>

theorem syncDonation_rejects_falsy:
  assumes "dn_blockNumber b = Val 0 \<or> dn_timestamp b = Val 0 \<or> dn_amount b = Val []"
  shows "syncDonation now b s = (missing_fields, s)"
  using assms by (auto simp: syncDonation_def donation_invalid_def)

theorem syncDonation_rejects_falsy_witness:
  "dn_blockNumber (example_donation\<lparr>dn_blockNumber := Val 0\<rparr>) = Val 0 \<and>
   \<not> donation_invalid example_donation \<and>
   syncDonation 5 (example_donation\<lparr>dn_blockNumber := Val 0\<rparr>) (empty_store 0)
     = (missing_fields, empty_store 0)"
proof -
  have h: "dn_blockNumber (example_donation\<lparr>dn_blockNumber := Val 0\<rparr>) = Val 0" by simp
  have v: "\<not> donation_invalid example_donation"
    by (simp add: donation_invalid_def example_donation_def)
  from syncDonation_rejects_falsy
         [of "example_donation\<lparr>dn_blockNumber := Val 0\<rparr>" 5 "empty_store 0"] h v
  show ?thesis by simp
qed

subsection \<open>Frames of the statements\<close>

lemma run_until_error_preserves:
  assumes "\<And>x s s'. q x s = Inr s' \<Longrightarrow> P s \<Longrightarrow> P s'" and "P s"
  shows "P (run_until_error q xs s)"
  using assms(2)
proof (induction xs arbitrary: s)
  case Nil
  then show ?case by simp
next
  case (Cons x xs)
  then show ?case by (cases "q x s") (auto intro: assms(1))
qed

lemma run_all_preserves:
  assumes "\<And>x s s'. q x s = Inr s' \<Longrightarrow> P s \<Longrightarrow> P s'" and "P s" and "run_all q xs s = Inr s'"
  shows "P s'"
  using assms(2,3)
proof (induction xs arbitrary: s)
  case Nil
  then show ?case by simp
next
  case (Cons x xs)
  then show ?case by (cases "q x s") (auto intro: assms(1))
qed

lemma and_then_Inr: "and_then r f = Inr y \<longleftrightarrow> (\<exists>v. r = Inr v \<and> f v = Inr y)"
  by (cases r) (simp_all add: and_then_def)

lemma upsert_campaign_frame:
  assumes "upsert_campaign f now a b c d e g h s = Inr s'"
  shows "donations s' = donations s" "withdrawals s' = withdrawals s" "badges s' = badges s"
    "sync_status s' = sync_status s"
  using assms
  by (auto simp: upsert_campaign_def split: sum.splits if_splits)

lemma has_campaign_iff: "has_campaign s k \<longleftrightarrow> k \<in> set (map cr_id (campaigns s))"
  by (auto simp: has_campaign_def)

lemma upsert_campaign_ids:
  assumes "upsert_campaign f now a b c d e g h s = Inr s'" and "\<And>ex r. cr_id (f ex r) = cr_id r"
  shows "map cr_id (campaigns s') = map cr_id (campaigns s) \<or>
         (\<exists>i. map cr_id (campaigns s') = map cr_id (campaigns s) @ [i])"
  using assms(1)
  by (auto simp: upsert_campaign_def assms(2) split: sum.splits if_splits)

lemma upsert_campaign_has_campaign:
  assumes "upsert_campaign f now a b c d e g h s = Inr s'" and "\<And>ex r. cr_id (f ex r) = cr_id r"
    and "has_campaign s k"
  shows "has_campaign s' k"
proof -
  from assms(3) have k: "k \<in> set (map cr_id (campaigns s))"
    by (simp only: has_campaign_iff)
  from upsert_campaign_ids [OF assms(1,2)]
  have "set (map cr_id (campaigns s)) \<subseteq> set (map cr_id (campaigns s'))"
  proof (elim disjE exE)
    fix i assume "map cr_id (campaigns s') = map cr_id (campaigns s) @ [i]"
    then have "set (map cr_id (campaigns s')) = set (map cr_id (campaigns s) @ [i])"
      by (simp only:)
    then show ?thesis by auto
  next
    assume "map cr_id (campaigns s') = map cr_id (campaigns s)"
    then have "set (map cr_id (campaigns s')) = set (map cr_id (campaigns s))"
      by (simp only:)
    then show ?thesis by simp
  qed
  with k show ?thesis by (auto simp only: has_campaign_iff)
qed

lemma insert_donation_cases:
  assumes "insert_donation now p1 p2 p3 p4 p5 p6 p7 s = Inr s'"
  shows "\<exists>row. proposed_donation now p1 p2 p3 p4 p5 p6 p7 = Inr row \<and>
           (has_donation s (dr_id row) \<and> s' = s \<or>
            \<not> has_donation s (dr_id row) \<and> has_campaign s (dr_campaign_id row) \<and>
              s' = s\<lparr>donations := donations s @ [row]\<rparr>)"
  using assms by (auto simp: insert_donation_def split: sum.splits if_splits)

lemma insert_donation_frame:
  assumes "insert_donation now a b c d e g h s = Inr s'"
  shows "campaigns s' = campaigns s" "withdrawals s' = withdrawals s" "badges s' = badges s"
    "sync_status s' = sync_status s"
  using insert_donation_cases [OF assms] by auto

lemma insert_withdrawal_frame:
  assumes "insert_withdrawal now a b c d e g h i j s = Inr s'"
  shows "campaigns s' = campaigns s" "donations s' = donations s" "badges s' = badges s"
    "sync_status s' = sync_status s"
  using assms
  by (auto simp: insert_withdrawal_def split: sum.splits if_splits)

lemma upsert_badge_frame:
  assumes "upsert_badge now a b c d e g s = Inr s'"
  shows "campaigns s' = campaigns s" "donations s' = donations s" "withdrawals s' = withdrawals s"
    "sync_status s' = sync_status s"
  using assms
  by (auto simp: upsert_badge_def split: option.splits if_splits)

lemma updateSyncStatus_frame:
  "campaigns (updateSyncStatus now e bn s) = campaigns s"
  "donations (updateSyncStatus now e bn s) = donations s"
  "withdrawals (updateSyncStatus now e bn s) = withdrawals s"
  "badges (updateSyncStatus now e bn s) = badges s"
  by (auto simp: updateSyncStatus_def update_sync_status_query_def)

subsection \<open>Donations are inserted once\<close>

lemma insert_donation_grows:
  assumes "insert_donation now a b c d e g h s = Inr s'"
  shows "donations s' = donations s \<or>
         (\<exists>r. donations s' = donations s @ [r] \<and> \<not> has_donation s (dr_id r))"
  using insert_donation_cases [OF assms] by auto

lemma donation_rows_grows:
  assumes "donations s' = donations s \<or>
         (\<exists>r. donations s' = donations s @ [r] \<and> \<not> has_donation s (dr_id r))"
   and "has_donation s i"
  shows "donation_rows i s' = donation_rows i s" "has_donation s' i"
  using assms by (auto simp: donation_rows_def has_donation_def)

lemma syncDonation_keeps_existing:
  assumes "has_donation s i"
  shows "donation_rows i (snd (syncDonation now b s)) = donation_rows i s"
proof (cases "donation_invalid b")
  case True
  then show ?thesis by (simp add: syncDonation_def)
next
  case False
  show ?thesis
  proof (cases "donation_query now b s")
    case (Inl e)
    with False show ?thesis by (simp add: syncDonation_def)
  next
    case (Inr s1)
    then have "donation_rows i s1 = donation_rows i s"
      unfolding donation_query_def
      using insert_donation_grows donation_rows_grows(1) assms by blast
    with False Inr show ?thesis
      by (simp add: syncDonation_def donation_rows_def updateSyncStatus_frame)
  qed
qed

text \<open>A row that the columns accept, of an id that is not stored and a stored campaign, is appended.\<close>

lemma donation_query_fresh:
  assumes "sent_donation now b = Inr r" "has_campaign s (dr_campaign_id r)"
    "\<not> has_donation s (dr_id r)"
  shows "donation_query now b s = Inr (s\<lparr>donations := donations s @ [r]\<rparr>)"
  using assms by (simp add: donation_query_def sent_donation_def insert_donation_def)

text \<open>A row that the columns accept, of a stored id, changes nothing.\<close>

lemma donation_query_existing:
  assumes "sent_donation now b = Inr r" "has_donation s (dr_id r)"
  shows "donation_query now b s = Inr s"
  using assms by (simp add: donation_query_def sent_donation_def insert_donation_def)

lemma syncDonation_first:
  assumes "\<not> donation_invalid b" "sent_donation now b = Inr r"
    and "has_campaign s (dr_campaign_id r)" "\<not> has_donation s (dr_id r)"
  shows "syncDonation now b s =
           (ok_response ''Donation synced successfully'',
            updateSyncStatus now ''donation'' (dn_blockNumber b)
              (s\<lparr>donations := donations s @ [r]\<rparr>))"
  using assms(1) donation_query_fresh [OF assms(2,3,4)]
  by (simp add: syncDonation_def)

lemma syncDonation_replay:
  assumes "\<not> donation_invalid b" "sent_donation now b = Inr r" "has_donation s (dr_id r)"
  shows "syncDonation now b s =
           (ok_response ''Donation synced successfully'',
            updateSyncStatus now ''donation'' (dn_blockNumber b) s)"
  using assms(1) donation_query_existing [OF assms(2,3)]
  by (simp add: syncDonation_def)

lemma donation_rows_fresh:
  assumes "\<not> has_donation s i" "dr_id r = i"
  shows "donation_rows i (s\<lparr>donations := donations s @ [r]\<rparr>) = [r]"
    "has_donation (s\<lparr>donations := donations s @ [r]\<rparr>) i"
  using assms by (auto simp: donation_rows_def has_donation_def filter_empty_conv)

lemma webhook_twice:
  assumes "\<not> donation_invalid b1" "sent_donation t1 b1 = Inr r1"
    and "has_campaign s (dr_campaign_id r1)" "\<not> has_donation s (dr_id r1)"
    and "\<not> donation_invalid b2" "sent_donation t2 b2 = Inr r2" "dr_id r2 = dr_id r1"
  shows "r_status (fst (syncDonation t1 b1 s)) = 200 \<and>
         r_status (fst (syncDonation t2 b2 (snd (syncDonation t1 b1 s)))) = 200 \<and>
         donations (snd (syncDonation t2 b2 (snd (syncDonation t1 b1 s))))
           = donations (snd (syncDonation t1 b1 s)) \<and>
         donation_rows (dr_id r1) (snd (syncDonation t2 b2 (snd (syncDonation t1 b1 s)))) = [r1] \<and>
         donation_rows (dr_id r1) (snd (syncDonation t1 b1 s)) = [r1]"
proof -
  note 1 = syncDonation_first [OF assms(1,2,3,4)]
  let ?s1 = "snd (syncDonation t1 b1 s)"
  have d1: "donations ?s1 = donations s @ [r1]"
    by (simp add: 1 updateSyncStatus_frame)
  then have rows1: "donation_rows (dr_id r1) ?s1 = [r1]" and has1: "has_donation ?s1 (dr_id r1)"
    using donation_rows_fresh [OF assms(4) refl]
    by (simp_all add: donation_rows_def has_donation_def)
  from has1 assms(7) have has2: "has_donation ?s1 (dr_id r2)" by simp
  note 2 = syncDonation_replay [OF assms(5,6) has2]
  have d2: "donations (snd (syncDonation t2 b2 ?s1)) = donations ?s1"
    by (simp add: 2 updateSyncStatus_frame)
  then have "donation_rows (dr_id r1) (snd (syncDonation t2 b2 ?s1)) = [r1]"
    using rows1 by (simp add: donation_rows_def)
  moreover have "r_status (fst (syncDonation t1 b1 s)) = 200"
    by (simp add: 1 ok_response_def)
  moreover have "r_status (fst (syncDonation t2 b2 ?s1)) = 200"
    by (simp add: 2 ok_response_def)
  ultimately show ?thesis using d2 rows1 by blast
qed

lemma donation_rows_cong:
  assumes "donations s' = donations s"
  shows "donation_rows i s' = donation_rows i s" "has_donation s' i = has_donation s i"
  using assms by (simp_all add: donation_rows_def has_donation_def)

lemma set_campaign_poller_id [simp]: "cr_id (set_campaign_poller ex r) = cr_id r"
  by (simp add: set_campaign_poller_def)

lemma set_campaign_webhook_id [simp]: "cr_id (set_campaign_webhook ex r) = cr_id r"
  by (simp add: set_campaign_webhook_def)

lemma set_campaign_batch_id [simp]: "cr_id (set_campaign_batch ex r) = cr_id r"
  by (simp add: set_campaign_batch_def)

lemma poll_campaigns_donations:
  "donations (run_until_error (poll_campaign_query now) xs s) = donations s"
  by (rule run_until_error_preserves [where P = "\<lambda>t. donations t = donations s"])
     (auto simp: poll_campaign_query_def dest: upsert_campaign_frame(1))

lemma poll_campaigns_has_campaign:
  assumes "has_campaign s c"
  shows "has_campaign (run_until_error (poll_campaign_query now) xs s) c"
  by (rule run_until_error_preserves [where P = "\<lambda>t. has_campaign t c"])
     (auto simp: poll_campaign_query_def assms intro: upsert_campaign_has_campaign)

lemma poll_badges_donations:
  "donations (run_until_error (badge_query now) xs s) = donations s"
  by (rule run_until_error_preserves [where P = "\<lambda>t. donations t = donations s"])
     (auto simp: badge_query_def dest: upsert_badge_frame(2))

lemma poll_withdrawals_donations:
  "donations (run_until_error (withdrawal_query now) xs s) = donations s"
  by (rule run_until_error_preserves [where P = "\<lambda>t. donations t = donations s"])
     (auto simp: withdrawal_query_def dest: insert_withdrawal_frame(2))

lemma poll_donations_existing:
  assumes "has_donation s i"
  shows "donation_rows i (run_until_error (donation_query now) xs s) = donation_rows i s \<and>
         has_donation (run_until_error (donation_query now) xs s) i"
proof (rule run_until_error_preserves
    [where P = "\<lambda>t. donation_rows i t = donation_rows i s \<and> has_donation t i"])
  show "donation_rows i s = donation_rows i s \<and> has_donation s i"
    using assms by simp
next
  fix x t t'
  assume q: "donation_query now x t = Inr t'"
    and p: "donation_rows i t = donation_rows i s \<and> has_donation t i"
  from q have "donations t' = donations t \<or>
      (\<exists>r. donations t' = donations t @ [r] \<and> \<not> has_donation t (dr_id r))"
    unfolding donation_query_def by (rule insert_donation_grows)
  from donation_rows_grows [OF this] p
  show "donation_rows i t' = donation_rows i s \<and> has_donation t' i" by simp
qed

lemma poll_store_keeps_existing:
  assumes "has_donation s i"
  shows "donation_rows i (poll_store now env s) = donation_rows i s"
proof -
  let ?s1 = "run_until_error (poll_campaign_query now) (items_of (pe_campaigns env)) s"
  let ?s2 = "run_until_error (donation_query now) (items_of (pe_donations env)) ?s1"
  let ?s3 = "run_until_error (badge_query now) (items_of (pe_badges env)) ?s2"
  let ?s4 = "run_until_error (withdrawal_query now) (items_of (pe_withdrawals env)) ?s3"
  have 1: "donation_rows i ?s1 = donation_rows i s" "has_donation ?s1 i"
    using donation_rows_cong [OF poll_campaigns_donations] assms by simp_all
  have 2: "donation_rows i ?s2 = donation_rows i ?s1"
    using poll_donations_existing [OF 1(2)] by simp
  have 3: "donation_rows i ?s3 = donation_rows i ?s2"
    by (rule donation_rows_cong) (rule poll_badges_donations)
  have 4: "donation_rows i ?s4 = donation_rows i ?s3"
    by (rule donation_rows_cong) (rule poll_withdrawals_donations)
  show ?thesis
    unfolding poll_store_def Let_def using 1(1) 2 3 4 by simp
qed

lemma poll_store_first_wins:
  assumes "sent_donation now b1 = Inr r1"
    and "has_campaign s (dr_campaign_id r1)" "\<not> has_donation s (dr_id r1)"
    and "pe_donations env = Some (b1 # rest)"
  shows "donation_rows (dr_id r1) (poll_store now env s) = [r1]"
proof -
  let ?s1 = "run_until_error (poll_campaign_query now) (items_of (pe_campaigns env)) s"
  let ?s2 = "run_until_error (donation_query now) (items_of (pe_donations env)) ?s1"
  let ?s3 = "run_until_error (badge_query now) (items_of (pe_badges env)) ?s2"
  let ?s4 = "run_until_error (withdrawal_query now) (items_of (pe_withdrawals env)) ?s3"
  have c1: "has_campaign ?s1 (dr_campaign_id r1)"
    by (rule poll_campaigns_has_campaign) (rule assms(2))
  have f1: "\<not> has_donation ?s1 (dr_id r1)"
    using donation_rows_cong(2) [OF poll_campaigns_donations] assms(3) by simp
  note q = donation_query_fresh [OF assms(1) c1 f1]
  let ?t = "?s1\<lparr>donations := donations ?s1 @ [r1]\<rparr>"
  have items: "items_of (pe_donations env) = b1 # rest"
    by (simp add: assms(4) items_of_def)
  have s2: "?s2 = run_until_error (donation_query now) rest ?t"
    by (simp only: items run_until_error.simps q sum.case)
  have "donation_rows (dr_id r1) ?s2 = donation_rows (dr_id r1) ?t"
    unfolding s2 using poll_donations_existing [OF donation_rows_fresh(2) [OF f1 refl]] by simp
  then have 2: "donation_rows (dr_id r1) ?s2 = [r1]"
    using donation_rows_fresh(1) [OF f1 refl] by simp
  have 3: "donation_rows (dr_id r1) ?s3 = donation_rows (dr_id r1) ?s2"
    by (rule donation_rows_cong) (rule poll_badges_donations)
  have 4: "donation_rows (dr_id r1) ?s4 = donation_rows (dr_id r1) ?s3"
    by (rule donation_rows_cong) (rule poll_withdrawals_donations)
  show ?thesis
    unfolding poll_store_def Let_def using 2 3 4 by simp
qed

lemma db_syncFromPonder:
  "db (syncFromPonder now env p) =
     (if isRunning p \<or> \<not> pe_connect env then db p else poll_store now env (db p))"
  by (simp add: syncFromPonder_def Let_def)

text \<open>
  C2, as the code has it: a donation id inserted twice. The first body is accepted by the
  validation and by the columns, its id is new and its campaign is stored; the second
  body, of the same id and any other content, is accepted by the validation and by the
  columns. Then both webhook calls answer 200, the second changes no donation row, and the
  one row of the id is the row of the first body. The poller given the first body and then
  any bodies (replays among them) stores the same one row, and no later webhook call or
  poller run, with whatever content and whatever its answer, changes the rows of the id.
\<close>

theorem donation_insert_idempotent:
  assumes "\<not> donation_invalid b1" "sent_donation t1 b1 = Inr r1"
    and "has_campaign s (dr_campaign_id r1)" "\<not> has_donation s (dr_id r1)"
    and "\<not> donation_invalid b2" "sent_donation t2 b2 = Inr r2" "dr_id r2 = dr_id r1"
    and "pe_connect env" "pe_donations env = Some (b1 # rest)"
  shows "r_status (fst (syncDonation t1 b1 s)) = 200 \<and>
         r_status (fst (syncDonation t2 b2 (snd (syncDonation t1 b1 s)))) = 200 \<and>
         donations (snd (syncDonation t2 b2 (snd (syncDonation t1 b1 s))))
           = donations (snd (syncDonation t1 b1 s)) \<and>
         donation_rows (dr_id r1) (snd (syncDonation t2 b2 (snd (syncDonation t1 b1 s)))) = [r1] \<and>
         donation_rows (dr_id r1) (db (syncFromPonder t1 env \<lparr>isRunning = False, db = s\<rparr>)) = [r1] \<and>
         donation_rows (dr_id r1) (snd (syncDonation t3 b3 (snd (syncDonation t1 b1 s))))
           = donation_rows (dr_id r1) (snd (syncDonation t1 b1 s)) \<and>
         donation_rows (dr_id r1)
             (db (syncFromPonder t3 env3 \<lparr>isRunning = False, db = snd (syncDonation t1 b1 s)\<rparr>))
           = donation_rows (dr_id r1) (snd (syncDonation t1 b1 s))"
proof -
  note w = webhook_twice [OF assms(1,2,3,4,5,6,7)]
  then have "donation_rows (dr_id r1) (snd (syncDonation t1 b1 s)) = [r1]" by blast
  then have has1: "has_donation (snd (syncDonation t1 b1 s)) (dr_id r1)"
    by (auto simp: donation_rows_def has_donation_def filter_eq_Cons_iff)
  have p: "donation_rows (dr_id r1) (db (syncFromPonder t1 env \<lparr>isRunning = False, db = s\<rparr>)) = [r1]"
    using poll_store_first_wins [OF assms(2,3,4,9)] assms(8)
    by (simp add: db_syncFromPonder)
  have k: "donation_rows (dr_id r1) (snd (syncDonation t3 b3 (snd (syncDonation t1 b1 s))))
           = donation_rows (dr_id r1) (snd (syncDonation t1 b1 s))"
    by (rule syncDonation_keeps_existing) (rule has1)
  have "donation_rows (dr_id r1)
             (db (syncFromPonder t3 env3 \<lparr>isRunning = False, db = snd (syncDonation t1 b1 s)\<rparr>))
           = donation_rows (dr_id r1) (snd (syncDonation t1 b1 s))"
    using poll_store_keeps_existing [OF has1, of t3 env3]
    by (simp add: db_syncFromPonder)
  with w p k show ?thesis by blast
qed

lemma example_store_facts:
  "has_campaign example_store 7" "\<not> has_donation example_store ''d1''"
  by code_simp+

lemma example_valid:
  "\<not> donation_invalid example_donation" "\<not> donation_invalid example_replay"
  by code_simp+

theorem donation_insert_idempotent_witness:
  "donation_rows ''d1''
     (snd (syncDonation 3 example_replay (snd (syncDonation 2 example_donation example_store))))
     = donation_rows ''d1'' (snd (syncDonation 2 example_donation example_store)) \<and>
   map dr_amount (donation_rows ''d1''
     (snd (syncDonation 3 example_replay (snd (syncDonation 2 example_donation example_store)))))
     = [Numeric 10000] \<and>
   r_status (fst (syncDonation 3 example_replay (snd (syncDonation 2 example_donation example_store))))
     = 200"
proof -
  let ?r1 = "projr (sent_donation 2 example_donation)"
  let ?r2 = "projr (sent_donation 3 example_replay)"
  have sent: "sent_donation 2 example_donation = Inr ?r1" "sent_donation 3 example_replay = Inr ?r2"
    by code_simp+
  have row: "dr_id ?r1 = ''d1''" "dr_id ?r2 = dr_id ?r1" "dr_amount ?r1 = Numeric 10000"
    by code_simp+
  have st: "has_campaign example_store (dr_campaign_id ?r1)"
    "\<not> has_donation example_store (dr_id ?r1)"
    by code_simp+
  have env: "pe_connect example_poll"
    "pe_donations example_poll = Some (example_donation # [example_replay])"
    by (simp_all add: example_poll_def)
  from donation_insert_idempotent
         [OF example_valid(1) sent(1) st example_valid(2) sent(2) row(2) env,
          where ?t3.0 = 3 and ?b3.0 = example_replay and ?env3.0 = example_poll]
  have all: "donation_rows ''d1''
       (snd (syncDonation 3 example_replay (snd (syncDonation 2 example_donation example_store))))
       = [?r1]"
    and same: "donation_rows ''d1''
       (snd (syncDonation 3 example_replay (snd (syncDonation 2 example_donation example_store))))
       = donation_rows ''d1'' (snd (syncDonation 2 example_donation example_store))"
    and ok: "r_status (fst (syncDonation 3 example_replay
       (snd (syncDonation 2 example_donation example_store)))) = 200"
    unfolding row(1) by blast+
  have "map dr_amount (donation_rows ''d1''
       (snd (syncDonation 3 example_replay (snd (syncDonation 2 example_donation example_store)))))
       = [Numeric 10000]"
    unfolding all by (simp add: row(3))
  with same ok show ?thesis by blast
qed

text \<open>
  C2, as the specification states it, fails: with the donation of the scenario stored, a
  replay of its id whose campaign id is null, and one whose amount has 31 digits, are
  accepted by the validation and answered 500.
\<close>

theorem donation_replay_counterexample:
  "has_donation example_donated ''d1'' \<and>
   \<not> donation_invalid example_replay_null \<and>
   r_status (fst (syncDonation 3 example_replay_null example_donated)) = 500 \<and>
   \<not> donation_invalid example_replay_long \<and>
   r_status (fst (syncDonation 3 example_replay_long example_donated)) = 500"
  by code_simp

subsection \<open>The batch as one run of statements\<close>

lemma run_all_map: "run_all (\<lambda>q. q) (map f xs) s = run_all f xs s"
  by (induction xs arbitrary: s) (auto split: sum.splits)

lemma run_all_append:
  "run_all q (xs @ ys) s = (case run_all q xs s of Inl e \<Rightarrow> Inl e | Inr s1 \<Rightarrow> run_all q ys s1)"
  by (induction xs arbitrary: s) (auto split: sum.splits)


lemma run_in_tx_map: "run_in_tx (\<lambda>q. q) (map f xs) c = run_in_tx f xs c"
  by (induction xs arbitrary: c) (auto split: sum.splits)

lemma run_in_tx_append:
  "run_in_tx q (xs @ ys) c =
     (case run_in_tx q xs c of (Some e, c1) \<Rightarrow> (Some e, c1) | (None, c1) \<Rightarrow> run_in_tx q ys c1)"
  by (induction xs arbitrary: c) (auto split: sum.splits)

lemma batch_statements_queue:
  "batch_statements now body c = run_in_tx (\<lambda>q. q) (batch_queue now body) c"
  by (simp add: batch_statements_def batch_queue_def run_in_tx_append run_in_tx_map
      split: prod.splits option.splits)

text \<open>The statements touch the working copy only, and run on it as on a bare store.\<close>

lemma run_in_tx_kept: "kept (snd (run_in_tx q xs c)) = kept c"
  by (induction xs arbitrary: c) (auto split: sum.splits)

lemma run_in_tx_done:
  "run_in_tx q xs c = (None, c1) \<Longrightarrow> run_all q xs (work c) = Inr (work c1)"
proof (induction xs arbitrary: c)
  case Nil
  then show ?case by simp
next
  case (Cons x xs)
  show ?case
  proof (cases "q x (work c)")
    case (Inl e)
    with Cons.prems show ?thesis by simp
  next
    case (Inr w)
    with Cons.prems have "run_in_tx q xs (c\<lparr>work := w\<rparr>) = (None, c1)" by simp
    from Cons.IH [OF this] Inr show ?thesis by simp
  qed
qed

lemma run_in_tx_raised:
  "run_in_tx q xs c = (Some e, c1) \<Longrightarrow> run_all q xs (work c) = Inl e"
proof (induction xs arbitrary: c)
  case Nil
  then show ?case by simp
next
  case (Cons x xs)
  show ?case
  proof (cases "q x (work c)")
    case (Inl e')
    with Cons.prems show ?thesis by simp
  next
    case (Inr w)
    with Cons.prems have "run_in_tx q xs (c\<lparr>work := w\<rparr>) = (Some e, c1)" by simp
    from Cons.IH [OF this] Inr show ?thesis by simp
  qed
qed


lemma syncBatch_cases:
  "(\<exists>e. run_all (\<lambda>q. q) (batch_queue now body) s = Inl e \<and>
        syncBatch now body s = (error_response e, s)) \<or>
   (\<exists>w. run_all (\<lambda>q. q) (batch_queue now body) s = Inr w \<and>
        syncBatch now body s = (ok_response ''Batch sync completed'', w))"
proof (cases "run_in_tx (\<lambda>q. q) (batch_queue now body) (begin_tx s)")
  case (Pair r c1)
  have k: "kept c1 = s"
    using run_in_tx_kept [of "\<lambda>q. q" "batch_queue now body" "begin_tx s"] Pair
    by (simp add: begin_tx_def)
  show ?thesis
  proof (cases r)
    case None
    with Pair run_in_tx_done [of "\<lambda>q. q" "batch_queue now body" "begin_tx s" c1]
    show ?thesis
      by (simp add: syncBatch_def batch_statements_queue begin_tx_def commit_tx_def)
  next
    case (Some e)
    with Pair k run_in_tx_raised [of "\<lambda>q. q" "batch_queue now body" "begin_tx s" e c1]
    show ?thesis
      by (simp add: syncBatch_def batch_statements_queue begin_tx_def rollback_tx_def)
  qed
qed

lemma batch_segments:
  assumes "run_all (\<lambda>q. q) (batch_queue now body) s = Inr s'"
  obtains s1 s2 s3 where
    "run_all (batch_campaign_query now) (items_of (bb_campaigns body)) s = Inr s1"
    "run_all (donation_query now) (items_of (bb_donations body)) s1 = Inr s2"
    "run_all (batch_withdrawal_query now) (items_of (bb_withdrawals body)) s2 = Inr s3"
    "run_all (badge_query now) (items_of (bb_badges body)) s3 = Inr s'"
  using assms
  by (auto simp: batch_queue_def run_all_append run_all_map split: sum.splits)

subsection \<open>Badges keep their identity\<close>

lemma badge_transfer_identity [simp]: "badge_identity (badge_transfer now t ow r) = badge_identity r"
  by (simp add: badge_transfer_def badge_identity_def)









lemma badge_transfer_name [simp]: "br_name (badge_transfer now t ow r) = br_name r"
  by (simp add: badge_transfer_def)



subsection \<open>The owner of a stored campaign\<close>

text \<open>
  C5 at a stored campaign sent again with a new owner: the webhook stores the new owner;
  the poller and the batch store the new name and keep the old owner.
\<close>

theorem campaign_owner_not_updated:
  "map cr_owner (campaigns example_store) = [''0xaaa''] \<and>
   map cr_owner (campaigns (snd (syncCampaign 5 example_campaign_moved example_store)))
     = [''0xbbb''] \<and>
   map cr_name
     (campaigns (db (syncFromPonder 5 example_poll_campaign \<lparr>isRunning = False, db = example_store\<rparr>)))
     = [''School 2''] \<and>
   map cr_owner
     (campaigns (db (syncFromPonder 5 example_poll_campaign \<lparr>isRunning = False, db = example_store\<rparr>)))
     = [''0xaaa''] \<and>
   r_status (fst (syncBatch 5 example_batch_campaign example_store)) = 200 \<and>
   map cr_name (campaigns (snd (syncBatch 5 example_batch_campaign example_store)))
     = [''School 2''] \<and>
   map cr_owner (campaigns (snd (syncBatch 5 example_batch_campaign example_store)))
     = [''0xaaa'']"
  by code_simp

subsection \<open>Who counts a sync\<close>

lemma sync_readings_cong:
  assumes "sync_status s1 = sync_status s"
  shows "total_synced_of e s1 = total_synced_of e s" "last_synced_of e s1 = last_synced_of e s"
    "sync_headroom e s1 = sync_headroom e s"
  using assms by (simp_all add: total_synced_of_def last_synced_of_def sync_headroom_def)

lemma updateSyncStatus_counts:
  assumes "sync_headroom e s"
  shows "total_synced_of e (updateSyncStatus now e bn s) = map (\<lambda>n. n + 1) (total_synced_of e s)"
    and "last_synced_of e (updateSyncStatus now e bn s) = map (\<lambda>_. now) (last_synced_of e s)"
  unfolding updateSyncStatus_ok [OF assms] total_synced_of_def last_synced_of_def
  by (induction "sync_status s"; auto simp: bump_sync_row_def filter_map comp_def)+

lemma counted:
  assumes "sync_headroom e s" "sync_status s1 = sync_status s"
  shows "total_synced_of e (updateSyncStatus now e bn s1) = map (\<lambda>n. n + 1) (total_synced_of e s) \<and>
         last_synced_of e (updateSyncStatus now e bn s1) = map (\<lambda>_. now) (last_synced_of e s)"
  using updateSyncStatus_counts [of e s1 now bn] sync_readings_cong [OF assms(2), of e] assms(1)
  by simp

lemma syncCampaign_counts:
  assumes "sync_headroom ''campaign'' s" "r_status (fst (syncCampaign now b s)) = 200"
  shows "total_synced_of ''campaign'' (snd (syncCampaign now b s))
           = map (\<lambda>n. n + 1) (total_synced_of ''campaign'' s) \<and>
         last_synced_of ''campaign'' (snd (syncCampaign now b s))
           = map (\<lambda>_. now) (last_synced_of ''campaign'' s)"
proof (cases "campaign_query now b s")
  case (Inl e)
  with assms(2) show ?thesis
    by (simp add: syncCampaign_def missing_fields_def error_response_def split: if_splits)
next
  case (Inr s1)
  then have "sync_status s1 = sync_status s"
    unfolding campaign_query_def by (rule upsert_campaign_frame(4))
  from counted [OF assms(1) this] Inr assms(2) show ?thesis
    by (simp add: syncCampaign_def missing_fields_def split: if_splits)
qed

lemma syncDonation_counts:
  assumes "sync_headroom ''donation'' s" "r_status (fst (syncDonation now b s)) = 200"
  shows "total_synced_of ''donation'' (snd (syncDonation now b s))
           = map (\<lambda>n. n + 1) (total_synced_of ''donation'' s) \<and>
         last_synced_of ''donation'' (snd (syncDonation now b s))
           = map (\<lambda>_. now) (last_synced_of ''donation'' s)"
proof (cases "donation_query now b s")
  case (Inl e)
  with assms(2) show ?thesis
    by (simp add: syncDonation_def missing_fields_def error_response_def split: if_splits)
next
  case (Inr s1)
  then have "sync_status s1 = sync_status s"
    unfolding donation_query_def by (rule insert_donation_frame(4))
  from counted [OF assms(1) this] Inr assms(2) show ?thesis
    by (simp add: syncDonation_def missing_fields_def split: if_splits)
qed

lemma syncWithdrawal_counts:
  assumes "sync_headroom ''withdrawal'' s" "r_status (fst (syncWithdrawal now b s)) = 200"
  shows "total_synced_of ''withdrawal'' (snd (syncWithdrawal now b s))
           = map (\<lambda>n. n + 1) (total_synced_of ''withdrawal'' s) \<and>
         last_synced_of ''withdrawal'' (snd (syncWithdrawal now b s))
           = map (\<lambda>_. now) (last_synced_of ''withdrawal'' s)"
proof (cases "withdrawal_query now b s")
  case (Inl e)
  with assms(2) show ?thesis
    by (simp add: syncWithdrawal_def missing_fields_def error_response_def split: if_splits)
next
  case (Inr s1)
  then have "sync_status s1 = sync_status s"
    unfolding withdrawal_query_def by (rule insert_withdrawal_frame(4))
  from counted [OF assms(1) this] Inr assms(2) show ?thesis
    by (simp add: syncWithdrawal_def missing_fields_def split: if_splits)
qed

lemma syncBadge_counts:
  assumes "sync_headroom ''badge'' s" "r_status (fst (syncBadge now b s)) = 200"
  shows "total_synced_of ''badge'' (snd (syncBadge now b s))
           = map (\<lambda>n. n + 1) (total_synced_of ''badge'' s) \<and>
         last_synced_of ''badge'' (snd (syncBadge now b s))
           = map (\<lambda>_. now) (last_synced_of ''badge'' s)"
proof (cases "badge_query now b s")
  case (Inl e)
  with assms(2) show ?thesis
    by (simp add: syncBadge_def missing_fields_def error_response_def split: if_splits)
next
  case (Inr s1)
  then have "sync_status s1 = sync_status s"
    unfolding badge_query_def by (rule upsert_badge_frame(4))
  from counted [OF assms(1) this] Inr assms(2) show ?thesis
    by (simp add: syncBadge_def missing_fields_def split: if_splits)
qed

lemma poll_store_sync_status: "sync_status (poll_store now env s) = sync_status s"
proof -
  let ?P = "\<lambda>t. sync_status t = sync_status s"
  have c: "?P (run_until_error (poll_campaign_query now) xs t)" if "?P t" for xs t
    by (rule run_until_error_preserves [where P = ?P])
       (auto simp: poll_campaign_query_def that dest!: upsert_campaign_frame(4))
  have d: "?P (run_until_error (donation_query now) xs t)" if "?P t" for xs t
    by (rule run_until_error_preserves [where P = ?P])
       (auto simp: donation_query_def that dest!: insert_donation_frame(4))
  have b: "?P (run_until_error (badge_query now) xs t)" if "?P t" for xs t
    by (rule run_until_error_preserves [where P = ?P])
       (auto simp: badge_query_def that dest!: upsert_badge_frame(4))
  have w: "?P (run_until_error (withdrawal_query now) xs t)" if "?P t" for xs t
    by (rule run_until_error_preserves [where P = ?P])
       (auto simp: withdrawal_query_def that dest!: insert_withdrawal_frame(4))
  show ?thesis
    unfolding poll_store_def Let_def by (intro w b d c) simp
qed

lemma batch_sync_status:
  assumes "run_all (\<lambda>q. q) (batch_queue now body) s = Inr s'"
  shows "sync_status s' = sync_status s"
proof -
  let ?P = "\<lambda>t. sync_status t = sync_status s"
  have c: "?P t'" if "run_all (batch_campaign_query now) xs t = Inr t'" "?P t" for xs t t'
    by (rule run_all_preserves [where P = ?P, OF _ that(2,1)])
       (auto simp: batch_campaign_query_def dest!: upsert_campaign_frame(4))
  have d: "?P t'" if "run_all (donation_query now) xs t = Inr t'" "?P t" for xs t t'
    by (rule run_all_preserves [where P = ?P, OF _ that(2,1)])
       (auto simp: donation_query_def dest!: insert_donation_frame(4))
  have b: "?P t'" if "run_all (badge_query now) xs t = Inr t'" "?P t" for xs t t'
    by (rule run_all_preserves [where P = ?P, OF _ that(2,1)])
       (auto simp: badge_query_def dest!: upsert_badge_frame(4))
  have w: "?P t'" if "run_all (batch_withdrawal_query now) xs t = Inr t'" "?P t" for xs t t'
    by (rule run_all_preserves [where P = ?P, OF _ that(2,1)])
       (auto simp: batch_withdrawal_query_def dest!: insert_withdrawal_frame(4))
  from assms show ?thesis
    by (rule batch_segments) (use c d w b in metis)
qed

lemma syncBatch_sync_status: "sync_status (snd (syncBatch now body s)) = sync_status s"
  using syncBatch_cases [of now body s] by (auto dest: batch_sync_status)

text \<open>
  A call of one of the four single-entity webhook handlers that answers 200 (insert, no-op
  or update) adds one to total-synced and sets last-synced-at to the current time in the
  sync-status rows of its entity type, provided the counter can still be incremented; the
  batch handler and the poller leave the sync-status table as it is.
\<close>

theorem webhook_counts_each_call:
  assumes "sync_headroom ''campaign'' s" "sync_headroom ''donation'' s"
    "sync_headroom ''withdrawal'' s" "sync_headroom ''badge'' s"
  shows "(r_status (fst (syncCampaign now c s)) = 200 \<longrightarrow>
            total_synced_of ''campaign'' (snd (syncCampaign now c s))
              = map (\<lambda>n. n + 1) (total_synced_of ''campaign'' s) \<and>
            last_synced_of ''campaign'' (snd (syncCampaign now c s))
              = map (\<lambda>_. now) (last_synced_of ''campaign'' s)) \<and>
         (r_status (fst (syncDonation now d s)) = 200 \<longrightarrow>
            total_synced_of ''donation'' (snd (syncDonation now d s))
              = map (\<lambda>n. n + 1) (total_synced_of ''donation'' s) \<and>
            last_synced_of ''donation'' (snd (syncDonation now d s))
              = map (\<lambda>_. now) (last_synced_of ''donation'' s)) \<and>
         (r_status (fst (syncWithdrawal now w s)) = 200 \<longrightarrow>
            total_synced_of ''withdrawal'' (snd (syncWithdrawal now w s))
              = map (\<lambda>n. n + 1) (total_synced_of ''withdrawal'' s) \<and>
            last_synced_of ''withdrawal'' (snd (syncWithdrawal now w s))
              = map (\<lambda>_. now) (last_synced_of ''withdrawal'' s)) \<and>
         (r_status (fst (syncBadge now b s)) = 200 \<longrightarrow>
            total_synced_of ''badge'' (snd (syncBadge now b s))
              = map (\<lambda>n. n + 1) (total_synced_of ''badge'' s) \<and>
            last_synced_of ''badge'' (snd (syncBadge now b s))
              = map (\<lambda>_. now) (last_synced_of ''badge'' s)) \<and>
         sync_status (snd (syncBatch now body s)) = sync_status s \<and>
         sync_status (db (syncFromPonder now env \<lparr>isRunning = False, db = s\<rparr>)) = sync_status s"
  using syncCampaign_counts [OF assms(1), of now c] syncDonation_counts [OF assms(2), of now d]
    syncWithdrawal_counts [OF assms(3), of now w] syncBadge_counts [OF assms(4), of now b]
    syncBatch_sync_status [of now body s] poll_store_sync_status [of now env s]
  by (simp add: db_syncFromPonder)

lemma example_store_headroom:
  "sync_headroom ''campaign'' example_store" "sync_headroom ''donation'' example_store"
  "sync_headroom ''withdrawal'' example_store" "sync_headroom ''badge'' example_store"
  by code_simp+

text \<open>The replay of the end-to-end scenario: the same donation twice, counted twice.\<close>

theorem webhook_counts_each_call_witness:
  "total_synced_of ''donation'' (snd (syncDonation 2 example_donation example_store)) = [1] \<and>
   total_synced_of ''donation''
     (snd (syncDonation 3 example_donation (snd (syncDonation 2 example_donation example_store))))
     = [2] \<and>
   donations (snd (syncDonation 3 example_donation (snd (syncDonation 2 example_donation example_store))))
     = donations (snd (syncDonation 2 example_donation example_store))"
proof -
  let ?s1 = "snd (syncDonation 2 example_donation example_store)"
  have h1: "sync_headroom ''campaign'' ?s1" "sync_headroom ''donation'' ?s1"
    "sync_headroom ''withdrawal'' ?s1" "sync_headroom ''badge'' ?s1"
    by code_simp+
  have ok: "r_status (fst (syncDonation 2 example_donation example_store)) = 200"
    "r_status (fst (syncDonation 3 example_donation ?s1)) = 200"
    by code_simp+
  have t0: "total_synced_of ''donation'' example_store = [0]"
    by code_simp
  have same: "donations (snd (syncDonation 3 example_donation ?s1)) = donations ?s1"
    by code_simp
  from webhook_counts_each_call [OF example_store_headroom, where d = example_donation and now = 2]
    ok(1) t0
  have 1: "total_synced_of ''donation'' ?s1 = [1]" by simp
  from webhook_counts_each_call [OF h1, where d = example_donation and now = 3] ok(2) 1
  have "total_synced_of ''donation'' (snd (syncDonation 3 example_donation ?s1)) = [2]" by simp
  with 1 same show ?thesis by simp
qed

text \<open>
  C7 at a batch and at a poller run that store the donation of the scenario: the batch
  answers 200 and both store the row, with total-synced and last-synced-at of the donation
  type as they were, where the webhook handler of the same donation counts it.
\<close>

theorem batch_and_poller_do_not_count:
  "r_status (fst (syncBatch 2 example_batch_donation example_store)) = 200 \<and>
   map dr_id (donations (snd (syncBatch 2 example_batch_donation example_store))) = [''d1''] \<and>
   total_synced_of ''donation'' example_store = [0] \<and>
   total_synced_of ''donation'' (snd (syncBatch 2 example_batch_donation example_store)) = [0] \<and>
   last_synced_of ''donation'' (snd (syncBatch 2 example_batch_donation example_store)) = [0] \<and>
   map dr_id
     (donations (db (syncFromPonder 2 example_poll_donation \<lparr>isRunning = False, db = example_store\<rparr>)))
     = [''d1''] \<and>
   total_synced_of ''donation''
     (db (syncFromPonder 2 example_poll_donation \<lparr>isRunning = False, db = example_store\<rparr>)) = [0] \<and>
   total_synced_of ''donation'' (snd (syncDonation 2 example_donation example_store)) = [1] \<and>
   last_synced_of ''donation'' (snd (syncDonation 2 example_donation example_store)) = [2]"
  by code_simp

subsection \<open>The batch is all or nothing\<close>






subsection \<open>Failures of the Chain Writer\<close>

lemma starts_with_iff: "starts_with s p \<longleftrightarrow> (\<exists>b. s = p @ b)"
  by (induction s p rule: starts_with.induct) auto

lemma str_includes_iff: "str_includes s n \<longleftrightarrow> (\<exists>a b. s = a @ n @ b)"
proof (induction s)
  case Nil
  then show ?case by simp
next
  case (Cons c cs)
  have "(\<exists>a b. c # cs = a @ n @ b) \<longleftrightarrow> (\<exists>b. c # cs = n @ b) \<or> (\<exists>a b. cs = a @ n @ b)"
  proof
    assume "\<exists>a b. c # cs = a @ n @ b"
    then obtain a b where ab: "c # cs = a @ n @ b" by blast
    show "(\<exists>b. c # cs = n @ b) \<or> (\<exists>a b. cs = a @ n @ b)"
    proof (cases a)
      case Nil
      with ab show ?thesis by auto
    next
      case (Cons a0 a')
      with ab have "cs = a' @ n @ b" by simp
      then show ?thesis by blast
    qed
  next
    assume "(\<exists>b. c # cs = n @ b) \<or> (\<exists>a b. cs = a @ n @ b)"
    then show "\<exists>a b. c # cs = a @ n @ b"
    proof
      assume "\<exists>b. c # cs = n @ b"
      then obtain b where "c # cs = [] @ n @ b" by auto
      then show ?thesis by blast
    next
      assume "\<exists>a b. cs = a @ n @ b"
      then obtain a b where "c # cs = (c # a) @ n @ b" by auto
      then show ?thesis by blast
    qed
  qed
  with Cons.IH show ?case by (simp add: starts_with_iff)
qed

lemma message_includes_iff:
  "message_includes m n \<longleftrightarrow> (\<exists>x y. m = Val (x @ n @ y))"
  by (cases m) (auto simp: message_includes_def str_includes_iff)

lemma sequence_fails:
  assumes "a \<noteq> 0" "ch_setup env = None"
    and "(ch_mint env = Inl err \<and> confirmed = []) \<or>
         (\<exists>m. ch_mint env = Inr m \<and> ch_approve env = Inl err \<and>
              confirmed = [MintTx (a * 100)]) \<or>
         (\<exists>m ap. ch_mint env = Inr m \<and> ch_approve env = Inr ap \<and> ch_donate env = Inl err \<and>
              confirmed = [MintTx (a * 100), ApproveTx (a * 100)])"
  shows "mintAndDonateIDRX (Num a) cid env chain = (classify cid err, chain @ confirmed)"
  using assms by (auto simp: mintAndDonateIDRX_def Let_def)

text \<open>
  C9: when a step of the sequence raises, the transactions confirmed before it stay on
  the chain and the result is a failure without data. An error with the code
  NONCE\_EXPIRED, or with "nonce" anywhere in its message, is answered NONCE\_ERROR and
  "try again", whatever else its message says: so is the revert for a campaign that is
  missing on the chain, when its message mentions a nonce. CAMPAIGN\_NOT\_FOUND is the
  answer only to an error that has passed that test and has "CampaignNotFound" in its
  message; every other error is answered with no code and its own message.
\<close>

theorem chain_writer_failure:
  assumes "a \<noteq> 0" "ch_setup env = None"
    and "(ch_mint env = Inl err \<and> confirmed = []) \<or>
         (\<exists>m. ch_mint env = Inr m \<and> ch_approve env = Inl err \<and>
              confirmed = [MintTx (a * 100)]) \<or>
         (\<exists>m ap. ch_mint env = Inr m \<and> ch_approve env = Inr ap \<and> ch_donate env = Inl err \<and>
              confirmed = [MintTx (a * 100), ApproveTx (a * 100)])"
    and "r = fst (mintAndDonateIDRX (Num a) cid env chain)"
  shows "snd (mintAndDonateIDRX (Num a) cid env chain) = chain @ confirmed \<and>
         \<not> cw_success r \<and> cw_data r = None \<and>
         (err_code err = Val ''NONCE_EXPIRED'' \<or> (\<exists>x y. err_message err = Val (x @ ''nonce'' @ y)) \<longrightarrow>
            cw_error r = Some ''NONCE_ERROR'' \<and>
            cw_message r = ''Transaction nonce conflict. Please try again in a few seconds.'') \<and>
         (err_code err \<noteq> Val ''NONCE_EXPIRED'' \<and> (\<nexists>x y. err_message err = Val (x @ ''nonce'' @ y)) \<and>
          (\<exists>x y. err_message err = Val (x @ ''CampaignNotFound'' @ y)) \<longrightarrow>
            cw_error r = Some ''CAMPAIGN_NOT_FOUND'' \<and>
            cw_message r = ''Campaign #'' @ show_int cid @ '' does not exist on blockchain'') \<and>
         (err_code err \<noteq> Val ''NONCE_EXPIRED'' \<and> (\<nexists>x y. err_message err = Val (x @ ''nonce'' @ y)) \<and>
          (\<nexists>x y. err_message err = Val (x @ ''CampaignNotFound'' @ y)) \<longrightarrow>
            cw_error r = None \<and>
            (\<forall>t. err_message err = Val t \<and> t \<noteq> [] \<longrightarrow> cw_message r = t) \<and>
            ((\<forall>t. err_message err = Val t \<longrightarrow> t = []) \<longrightarrow>
               cw_message r = ''Failed to mint and donate IDRX''))"
proof -
  have r: "r = classify cid err"
    and c: "snd (mintAndDonateIDRX (Num a) cid env chain) = chain @ confirmed"
    using sequence_fails [OF assms(1,2,3), of cid chain] assms(4) by simp_all
  have n: "message_includes (err_message err) ''nonce''
             \<longleftrightarrow> (\<exists>x y. err_message err = Val (x @ ''nonce'' @ y))"
    and m: "message_includes (err_message err) ''CampaignNotFound''
             \<longleftrightarrow> (\<exists>x y. err_message err = Val (x @ ''CampaignNotFound'' @ y))"
    by (rule message_includes_iff)+
  have "\<not> cw_success r" "cw_data r = None"
    unfolding r by (simp_all add: classify_def)
  moreover have "err_code err = Val ''NONCE_EXPIRED'' \<or> (\<exists>x y. err_message err = Val (x @ ''nonce'' @ y)) \<longrightarrow>
            cw_error r = Some ''NONCE_ERROR'' \<and>
            cw_message r = ''Transaction nonce conflict. Please try again in a few seconds.''"
    unfolding r n [symmetric] by (simp add: classify_def)
  moreover have "err_code err \<noteq> Val ''NONCE_EXPIRED'' \<and> (\<nexists>x y. err_message err = Val (x @ ''nonce'' @ y)) \<and>
          (\<exists>x y. err_message err = Val (x @ ''CampaignNotFound'' @ y)) \<longrightarrow>
            cw_error r = Some ''CAMPAIGN_NOT_FOUND'' \<and>
            cw_message r = ''Campaign #'' @ show_int cid @ '' does not exist on blockchain''"
    unfolding r n [symmetric] m [symmetric] by (simp add: classify_def)
  moreover have "err_code err \<noteq> Val ''NONCE_EXPIRED'' \<and> (\<nexists>x y. err_message err = Val (x @ ''nonce'' @ y)) \<and>
          (\<nexists>x y. err_message err = Val (x @ ''CampaignNotFound'' @ y)) \<longrightarrow>
            cw_error r = None \<and>
            (\<forall>t. err_message err = Val t \<and> t \<noteq> [] \<longrightarrow> cw_message r = t) \<and>
            ((\<forall>t. err_message err = Val t \<longrightarrow> t = []) \<longrightarrow>
               cw_message r = ''Failed to mint and donate IDRX'')"
    unfolding r n [symmetric] m [symmetric]
    by (cases "err_message err") (auto simp: classify_def str_or_def)
  ultimately show ?thesis using c by blast
qed

text \<open>
  The donation of 10000 rupiah to campaign 7, which is not on the chain: the revert says
  CampaignNotFound and the answer is NONCE\_ERROR, with both tokens minted and approved.
\<close>

theorem chain_writer_failure_witness:
  "ch_donate example_chain_revert_tx
     = Inl \<lparr>err_code = Val ''CALL_EXCEPTION'',
            err_message = Val (''execution reverted: '' @ ''CampaignNotFound''
                                 @ '' (transaction: to 0xCA, nonce 12)'')\<rparr> \<and>
   mintAndDonateIDRX (Num 10000) 7 example_chain_revert_tx []
     = (\<lparr>cw_success = False,
         cw_message = ''Transaction nonce conflict. Please try again in a few seconds.'',
         cw_error = Some ''NONCE_ERROR'', cw_data = None\<rparr>,
        [MintTx 1000000, ApproveTx 1000000])"
proof -
  let ?err = "\<lparr>err_code = Val ''CALL_EXCEPTION'',
                err_message = Val ''execution reverted: CampaignNotFound (transaction: to 0xCA, nonce 12)''\<rparr>"
  let ?r = "fst (mintAndDonateIDRX (Num 10000) 7 example_chain_revert_tx [])"
  have env: "ch_setup example_chain_revert_tx = None"
    "ch_mint example_chain_revert_tx = Inr \<lparr>rc_hash = ''0xm1'', rc_block = 10\<rparr>"
    "ch_approve example_chain_revert_tx = Inr \<lparr>rc_hash = ''0xa1'', rc_block = 11\<rparr>"
    "ch_donate example_chain_revert_tx = Inl ?err"
    by (simp_all add: example_chain_revert_tx_def example_chain_revert_def)
  have a: "(10000::int) \<noteq> 0" by simp
  have step: "(ch_mint example_chain_revert_tx = Inl ?err \<and>
                [MintTx (10000 * 100), ApproveTx (10000 * 100)] = []) \<or>
         (\<exists>m. ch_mint example_chain_revert_tx = Inr m \<and> ch_approve example_chain_revert_tx = Inl ?err \<and>
              [MintTx (10000 * 100), ApproveTx (10000 * 100)] = [MintTx (10000 * 100)]) \<or>
         (\<exists>m ap. ch_mint example_chain_revert_tx = Inr m \<and> ch_approve example_chain_revert_tx = Inr ap \<and>
              ch_donate example_chain_revert_tx = Inl ?err \<and>
              [MintTx (10000 * 100), ApproveTx (10000 * 100)]
                = [MintTx (10000 * 100), ApproveTx (10000 * 100)])"
    using env by simp
  have nonce: "\<exists>x y. err_message ?err = Val (x @ ''nonce'' @ y)"
  proof (intro exI)
    show "err_message ?err
            = Val (''execution reverted: CampaignNotFound (transaction: to 0xCA, '' @ ''nonce'' @ '' 12)'')"
      by simp
  qed
  from chain_writer_failure [OF a env(1) step refl, where cid = 7 and chain = "[]"] nonce
  have "snd (mintAndDonateIDRX (Num 10000) 7 example_chain_revert_tx [])
          = [MintTx 1000000, ApproveTx 1000000]"
    "\<not> cw_success ?r" "cw_data ?r = None" "cw_error ?r = Some ''NONCE_ERROR''"
    "cw_message ?r = ''Transaction nonce conflict. Please try again in a few seconds.''"
    by simp_all
  then have "mintAndDonateIDRX (Num 10000) 7 example_chain_revert_tx []
     = (\<lparr>cw_success = False,
         cw_message = ''Transaction nonce conflict. Please try again in a few seconds.'',
         cw_error = Some ''NONCE_ERROR'', cw_data = None\<rparr>,
        [MintTx 1000000, ApproveTx 1000000])"
    by (cases "mintAndDonateIDRX (Num 10000) 7 example_chain_revert_tx []") simp
  with env(4) show ?thesis by simp
qed

subsection \<open>The flag of the poller\<close>

lemma syncFromPonder_skips: "isRunning p \<Longrightarrow> syncFromPonder now env p = p"
  by (simp add: syncFromPonder_def)

lemma syncFromPonder_clears:
  "\<not> isRunning p \<Longrightarrow> pe_connect env \<Longrightarrow> \<not> isRunning (syncFromPonder now env p)"
  by (simp add: syncFromPonder_def Let_def)

lemma syncFromPonder_stuck:
  "\<not> isRunning p \<Longrightarrow> \<not> pe_connect env \<Longrightarrow>
     syncFromPonder now env p = p\<lparr>isRunning := True\<rparr>"
  by (simp add: syncFromPonder_def Let_def)

text \<open>
  C8 at a tick whose \<open>pool.connect()\<close> is rejected: the run leaves the flag set, and the
  next tick, for which the database is reachable and the indexer has a donation, is
  skipped and stores nothing; without the failed tick the same run stores the donation.
\<close>

theorem poller_flag_left_set:
  "isRunning (syncFromPonder 1 example_poll_down \<lparr>isRunning = False, db = example_store\<rparr>) \<and>
   syncFromPonder 2 example_poll_donation
       (syncFromPonder 1 example_poll_down \<lparr>isRunning = False, db = example_store\<rparr>)
     = \<lparr>isRunning = True, db = example_store\<rparr> \<and>
   donations example_store = [] \<and>
   map dr_id
     (donations (db (syncFromPonder 2 example_poll_donation \<lparr>isRunning = False, db = example_store\<rparr>)))
     = [''d1'']"
  by code_simp

subsection \<open>The guard of the settlement confirmation\<close>

lemma like_percent: "like s ''%''"
  by (induction s) simp_all

lemma like_skip: "like s p \<Longrightarrow> like s (CHR ''%'' # p)"
  by (cases s) simp_all

lemma like_own_prefix:
  assumes "CHR 0x5C \<notin> set x"
  shows "like (x @ rest) (x @ ''%'')"
  using assms
proof (induction x)
  case Nil
  show ?case using like_percent by simp
next
  case (Cons c cs)
  then have ih: "like (cs @ rest) (cs @ ''%'')" and c: "c \<noteq> CHR 0x5C" by auto
  show ?case
  proof (cases "c = CHR ''%''")
    case True
    with like_skip [OF ih] show ?thesis by simp
  next
    case False
    with ih c show ?thesis by simp
  qed
qed

lemma check_query_finds:
  assumes "r \<in> set (donations s)" "dr_id r = ''qris-'' @ orderId" "CHR 0x5C \<notin> set orderId"
  shows "r \<in> set (check_query orderId s)"
proof -
  from assms(3) have "CHR 0x5C \<notin> set (''qris-'' @ orderId)" by simp
  from like_own_prefix [OF this, of "[]"] have "like (dr_id r) (''qris-'' @ orderId @ ''%'')"
    using assms(2) by simp
  with assms(1) show ?thesis by (simp add: check_query_def)
qed

text \<open>
  With a stored donation whose id is \<open>qris-\<close> and the order id (an order id without a
  backslash), the handler answers with the first stored donation that matches the pattern
  and leaves the store and the chain as they are, whatever the provider and the chain
  would have answered.
\<close>

lemma getQRISStatus_short_circuit:
  assumes "r \<in> set (donations (w_db w))" "dr_id r = ''qris-'' @ orderId"
    "CHR 0x5C \<notin> set orderId"
  shows "\<exists>r'. r' \<in> set (donations (w_db w)) \<and> like (dr_id r') (''qris-'' @ orderId @ ''%'') \<and>
           getQRISStatus now orderId env w =
             ((qris_reply 200 True ''Transaction already processed'')\<lparr>q_row := Some r'\<rparr>, w)"
proof -
  from check_query_finds [OF assms] obtain r' rs where rows: "check_query orderId (w_db w) = r' # rs"
    by (cases "check_query orderId (w_db w)") auto
  then have "r' \<in> set (check_query orderId (w_db w))" by simp
  then have "r' \<in> set (donations (w_db w))" "like (dr_id r') (''qris-'' @ orderId @ ''%'')"
    by (simp_all add: check_query_def)
  moreover from rows have "getQRISStatus now orderId env w =
      ((qris_reply 200 True ''Transaction already processed'')\<lparr>q_row := Some r'\<rparr>, w)"
    by (simp add: getQRISStatus_def)
  ultimately show ?thesis by blast
qed

text \<open>
  C1 at a settled order confirmed twice. The insert of the handler names three columns
  that the donation table does not have, the error is dropped, and the second call finds
  no record: the sequence runs twice. Had the table the three columns, the first call
  would store the record and the second would stop at the guard.
\<close>

theorem settlement_confirmed_twice:
  "q_status (fst (getQRISStatus 10 ''qris-7-1700000000000'' example_settled example_world)) = 200 \<and>
   donations (w_db (snd (getQRISStatus 10 ''qris-7-1700000000000'' example_settled example_world)))
     = [] \<and>
   w_chain (snd (getQRISStatus 10 ''qris-7-1700000000000'' example_settled example_world))
     = [MintTx 1000000, ApproveTx 1000000, DonateTx 7 1000000] \<and>
   w_chain (snd (getQRISStatus 20 ''qris-7-1700000000000'' example_settled
              (snd (getQRISStatus 10 ''qris-7-1700000000000'' example_settled example_world))))
     = [MintTx 1000000, ApproveTx 1000000, DonateTx 7 1000000,
        MintTx 1000000, ApproveTx 1000000, DonateTx 7 1000000] \<and>
   w_chain (snd (getQRISStatus 20 ''qris-7-1700000000000''
              (example_settled\<lparr>qe_qris_columns := True\<rparr>)
              (snd (getQRISStatus 10 ''qris-7-1700000000000''
                      (example_settled\<lparr>qe_qris_columns := True\<rparr>) example_world))))
     = [MintTx 1000000, ApproveTx 1000000, DonateTx 7 1000000]"
  by code_simp

end
